theory Spec2Isabelle
  imports Main "HOL-Library.Word"
begin

section \<open>Strings, numbers and the fixed output buffer\<close>

text \<open>
  A \<^verbatim>\<open>std::string\<close> is a byte list. \<^verbatim>\<open>c_str()\<close> handed to a \<^verbatim>\<open>%s\<close>
  conversion or to a C interface is read up to its first NUL byte.
\<close>

definition c_str :: "string \<Rightarrow> string" where
  "c_str s = takeWhile (\<lambda>c. c \<noteq> CHR 0x00) s"

text \<open>Decimal digits of a natural number (\<^verbatim>\<open>std::to_string\<close>, \<^verbatim>\<open>%hu\<close>).\<close>

fun to_string :: "nat \<Rightarrow> string" where
  "to_string n =
     (if n < 10 then [''0123456789'' ! n]
      else to_string (n div 10) @ [''0123456789'' ! (n mod 10)])"

declare to_string.simps [simp del]

text \<open>The \<^verbatim>\<open>%d\<close> conversion: a signed decimal.\<close>

definition printf_d :: "int \<Rightarrow> string" where
  "printf_d i = (if i < 0 then CHR ''-'' # to_string (nat (- i)) else to_string (nat i))"

text \<open>
  The URI-producing functions format into \<^verbatim>\<open>char url[256]\<close> with \<^verbatim>\<open>sprintf\<close>, which
  writes the formatted text and a terminating NUL without looking at the size of the
  buffer. A text of 256 bytes or more runs over the end of the array; the model makes
  that an error value instead of a returned string.
\<close>

datatype error = BufferOverrun

definition sprintf_url :: "string \<Rightarrow> error + string" where
  "sprintf_url s = (if length s < 256 then Inr s else Inl BufferOverrun)"

section \<open>Protocol messages\<close>

text \<open>
  The messages are generated from \<^verbatim>\<open>loadbalancer.proto\<close>; the model carries the fields
  the client code reads and writes. A \<^verbatim>\<open>float\<close> is never computed on in this code, only
  copied, so it is carried as its 32-bit pattern. \<^verbatim>\<open>PortRange\<close> is a protobuf enum,
  carried as its integer code. The unsigned 32-bit wire type of the port and slot fields
  is the one the accessors of \<^verbatim>\<open>BackEnd\<close> and \<^verbatim>\<open>LbClientStatus\<close> use for them.
\<close>

type_synonym float32 = "32 word"
type_synonym PortRange = "32 word"

record Timestamp =
  seconds :: "64 word"
  nanos :: "32 word"

record timespec =
  tv_sec :: "64 word"
  tv_nsec :: "64 word"

record Status =
  error_code :: nat
  error_message :: string

definition ok :: "Status \<Rightarrow> bool" where
  "ok status = (error_code status = 0)"

record RegisterRequest =
  reg_token :: string
  reg_name :: string
  reg_lbid :: string
  reg_weight :: float32
  reg_ipaddress :: string
  reg_udpport :: "32 word"
  reg_portrange :: PortRange

record RegisterReply =
  regrep_sessionid :: string
  regrep_token :: string

record DeregisterRequest =
  dereg_token :: string
  dereg_lbid :: string
  dereg_sessionid :: string

record SendStateRequest =
  state_token :: string
  state_lbid :: string
  state_sessionid :: string
  state_timestamp :: Timestamp
  state_fillpercent :: float32
  state_controlsignal :: float32
  state_isready :: bool

record ReserveLoadBalancerRequest =
  reserve_token :: string
  reserve_name :: string
  reserve_until :: Timestamp

record ReserveLoadBalancerReply =
  reply_token :: string
  reply_lbid :: string
  reply_syncipaddress :: string
  reply_syncudpport :: "32 word"
  reply_dataipv4address :: string
  reply_dataipv6address :: string

record FreeLoadBalancerRequest =
  free_token :: string
  free_lbid :: string

record LoadBalancerStatusRequest =
  status_token :: string
  status_lbid :: string

record WorkerStatus =
  worker_name :: string
  worker_fillpercent :: float32
  worker_controlsignal :: float32
  worker_slotsassigned :: "32 word"
  worker_lastupdated :: Timestamp

record LoadBalancerStatusReply =
  workers :: "WorkerStatus list"

record GetLoadBalancerRequest =
  get_token :: string
  get_lbid :: string

text \<open>
  What a call does to the outside world is recorded as a list of events: a request sent
  over the channel opened to a target \<^verbatim>\<open>host:port\<close>, or a name handed to the host
  resolver.
\<close>

datatype request =
    RegisterCall RegisterRequest
  | DeregisterCall DeregisterRequest
  | SendStateCall SendStateRequest
  | ReserveLoadBalancerCall ReserveLoadBalancerRequest
  | FreeLoadBalancerCall FreeLoadBalancerRequest
  | LoadBalancerStatusCall LoadBalancerStatusRequest
  | GetLoadBalancerCall GetLoadBalancerRequest

datatype event = Rpc string request | Getaddrinfo string

definition cpTarget :: "string \<Rightarrow> 16 word \<Rightarrow> string" where
  "cpTarget cpIP port = cpIP @ '':'' @ to_string (unat port)"

section \<open>LbControlPlaneClient\<close>

text \<open>
  The fields of the class. Four of them share their name with a field of
  \<^verbatim>\<open>LbReservation\<close> or \<^verbatim>\<open>LbClientStatus\<close> and carry the prefix \<open>cl_\<close> here.
\<close>

record LbControlPlaneClient =
  cl_cpAddr :: string
  cl_cpPort :: "16 word"
  token :: string
  name :: string
  cl_lbId :: string
  weight :: float32
  beAddr :: string
  bePort :: "16 word"
  beRange :: PortRange
  sessionToken :: string
  sessionId :: string
  cl_fillPercent :: float32
  pidError :: float32
  isReady :: bool

text \<open>
  The constructor stores its nine arguments. The two session strings are default
  constructed (empty), \<open>isReady\<close> has the initialiser \<open>true\<close>, and the two telemetry
  floats have no initialiser: their first contents are whatever the memory held, the
  last argument here.
\<close>

definition LbControlPlaneClient_new ::
  "string \<Rightarrow> 16 word \<Rightarrow> string \<Rightarrow> 16 word \<Rightarrow> PortRange \<Rightarrow> string \<Rightarrow> string \<Rightarrow> string \<Rightarrow>
   float32 \<Rightarrow> float32 \<times> float32 \<Rightarrow> LbControlPlaneClient" where
  "LbControlPlaneClient_new cpIP port beIP bePort' beRange' cliName token' lbId' weight' garbage =
     \<lparr>cl_cpAddr = cpIP, cl_cpPort = port, token = token', name = cliName, cl_lbId = lbId',
      weight = weight', beAddr = beIP, bePort = bePort', beRange = beRange',
      sessionToken = [], sessionId = [],
      cl_fillPercent = fst garbage, pidError = snd garbage, isReady = True\<rparr>"

definition update :: "float32 \<Rightarrow> float32 \<Rightarrow> bool \<Rightarrow> LbControlPlaneClient \<Rightarrow> LbControlPlaneClient" where
  "update fill pidErr ready c = c\<lparr>cl_fillPercent := fill, pidError := pidErr, isReady := ready\<rparr>"

text \<open>
  Each method builds its request, performs the one blocking call on the stub (the
  server's answer to that request is the function \<open>stub\<close>), and acts on the status.
  The result is the return code, the object afterwards and the events of the call.
\<close>

definition Register_request :: "LbControlPlaneClient \<Rightarrow> RegisterRequest" where
  "Register_request c =
     \<lparr>reg_token = token c, reg_name = name c, reg_lbid = cl_lbId c, reg_weight = weight c,
      reg_ipaddress = beAddr c, reg_udpport = ucast (bePort c), reg_portrange = beRange c\<rparr>"

definition Register ::
  "(RegisterRequest \<Rightarrow> Status \<times> RegisterReply) \<Rightarrow> LbControlPlaneClient \<Rightarrow>
   int \<times> LbControlPlaneClient \<times> event list" where
  "Register stub c =
     (let request = Register_request c;
          (status, reply) = stub request;
          sent = [Rpc (cpTarget (cl_cpAddr c) (cl_cpPort c)) (RegisterCall request)]
      in if \<not> ok status then (1, c, sent)
         else (0, c\<lparr>sessionId := regrep_sessionid reply, sessionToken := regrep_token reply\<rparr>, sent))"

definition Deregister_request :: "LbControlPlaneClient \<Rightarrow> DeregisterRequest" where
  "Deregister_request c =
     \<lparr>dereg_token = sessionToken c, dereg_lbid = cl_lbId c, dereg_sessionid = sessionId c\<rparr>"

definition Deregister ::
  "(DeregisterRequest \<Rightarrow> Status) \<Rightarrow> LbControlPlaneClient \<Rightarrow>
   int \<times> LbControlPlaneClient \<times> event list" where
  "Deregister stub c =
     (let request = Deregister_request c;
          status = stub request;
          sent = [Rpc (cpTarget (cl_cpAddr c) (cl_cpPort c)) (DeregisterCall request)]
      in if \<not> ok status then (1, c, sent) else (0, c, sent))"

text \<open>
  \<open>SendState\<close> reads the realtime clock (\<open>t1\<close>); \<^verbatim>\<open>set_nanos\<close> takes a 32-bit integer.
  The method has no test of the session fields before the call.
\<close>

definition SendState_request :: "timespec \<Rightarrow> LbControlPlaneClient \<Rightarrow> SendStateRequest" where
  "SendState_request t1 c =
     \<lparr>state_token = sessionToken c, state_lbid = cl_lbId c, state_sessionid = sessionId c,
      state_timestamp = \<lparr>seconds = tv_sec t1, nanos = ucast (tv_nsec t1)\<rparr>,
      state_fillpercent = cl_fillPercent c, state_controlsignal = pidError c,
      state_isready = isReady c\<rparr>"

definition SendState ::
  "(SendStateRequest \<Rightarrow> Status) \<Rightarrow> timespec \<Rightarrow> LbControlPlaneClient \<Rightarrow>
   int \<times> LbControlPlaneClient \<times> event list" where
  "SendState stub t1 c =
     (let request = SendState_request t1 c;
          status = stub request;
          sent = [Rpc (cpTarget (cl_cpAddr c) (cl_cpPort c)) (SendStateCall request)]
      in if \<not> ok status then (1, c, sent) else (0, c, sent))"

section \<open>LbReservation\<close>

record LbClientStatus =
  fillPercent :: float32
  controlSignal :: float32
  slotsAssigned :: "32 word"
  lastUpdated :: Timestamp
  updateTime :: "64 word"

text \<open>
  A default-constructed \<^verbatim>\<open>LbClientStatus\<close>, as \<^verbatim>\<open>operator[]\<close> of the map creates it for
  a new key: the member initialisers give zeros, the timestamp is the empty message, and
  \<open>updateTime\<close> has no initialiser (its first contents are the argument).
\<close>

definition LbClientStatus_new :: "64 word \<Rightarrow> LbClientStatus" where
  "LbClientStatus_new garbage =
     \<lparr>fillPercent = 0, controlSignal = 0, slotsAssigned = 0,
      lastUpdated = \<lparr>seconds = 0, nanos = 0\<rparr>, updateTime = garbage\<rparr>"

record LbReservation =
  isReserved :: bool
  cpAddr :: string
  cpPort :: "16 word"
  lbName :: string
  adminToken :: string
  until :: Timestamp
  untilSeconds :: "64 word"
  syncIpAddress :: string
  syncUdpPort :: "16 word"
  dataIpv4Address :: string
  dataIpv6Address :: string
  lbId :: string
  instanceToken :: string
  clientStats :: "string \<rightharpoonup> LbClientStatus"

text \<open>
  The constructor stores its five arguments; \<open>isReserved\<close> has the initialiser
  \<open>false\<close>, strings, timestamp and map start empty, and \<open>syncUdpPort\<close> has no
  initialiser (the last argument).
\<close>

definition LbReservation_new ::
  "string \<Rightarrow> 16 word \<Rightarrow> string \<Rightarrow> string \<Rightarrow> 64 word \<Rightarrow> 16 word \<Rightarrow> LbReservation" where
  "LbReservation_new cpIP port name' admintoken until' garbage =
     \<lparr>isReserved = False, cpAddr = cpIP, cpPort = port, lbName = name',
      adminToken = admintoken, until = \<lparr>seconds = 0, nanos = 0\<rparr>, untilSeconds = until',
      syncIpAddress = [], syncUdpPort = garbage, dataIpv4Address = [], dataIpv6Address = [],
      lbId = [], instanceToken = [], clientStats = Map.empty\<rparr>"

definition ReserveLoadBalancer_request :: "string \<Rightarrow> string \<Rightarrow> 64 word \<Rightarrow> ReserveLoadBalancerRequest" where
  "ReserveLoadBalancer_request adminToken' lbName' untilSeconds' =
     \<lparr>reserve_token = adminToken', reserve_name = lbName',
      reserve_until = \<lparr>seconds = untilSeconds', nanos = 0\<rparr>\<rparr>"

text \<open>The member function: the reply's 32-bit port is stored into a 16-bit field.\<close>

definition ReserveLoadBalancer ::
  "(ReserveLoadBalancerRequest \<Rightarrow> Status \<times> ReserveLoadBalancerReply) \<Rightarrow> LbReservation \<Rightarrow>
   int \<times> LbReservation \<times> event list" where
  "ReserveLoadBalancer stub r =
     (let request = ReserveLoadBalancer_request (adminToken r) (lbName r) (untilSeconds r);
          (status, reply) = stub request;
          sent = [Rpc (cpTarget (cpAddr r) (cpPort r)) (ReserveLoadBalancerCall request)]
      in if \<not> ok status then (1, r, sent)
         else
           (let syncIP = reply_syncipaddress reply;
                syncIP = (if syncIP = [] \<or> length syncIP < 16 then cpAddr r else syncIP)
            in (0,
                r\<lparr>instanceToken := reply_token reply,
                  lbId := reply_lbid reply,
                  syncIpAddress := syncIP,
                  syncUdpPort := ucast (reply_syncudpport reply),
                  dataIpv4Address := reply_dataipv4address reply,
                  dataIpv6Address := reply_dataipv6address reply,
                  isReserved := True\<rparr>,
                sent)))"

definition FreeLoadBalancer ::
  "(FreeLoadBalancerRequest \<Rightarrow> Status) \<Rightarrow> LbReservation \<Rightarrow> int \<times> LbReservation \<times> event list" where
  "FreeLoadBalancer stub r =
     (let request = \<lparr>free_token = adminToken r, free_lbid = lbId r\<rparr>;
          status = stub request;
          sent = [Rpc (cpTarget (cpAddr r) (cpPort r)) (FreeLoadBalancerCall request)]
      in if \<not> ok status then (1, r, sent) else (0, r, sent))"

text \<open>
  One turn of the loop over the reply's workers. \<^verbatim>\<open>clientStats[name]\<close> is the entry at
  the key, created when there is none; the five assignments follow in the order of the
  source. \<^verbatim>\<open>TimestampToMilliseconds\<close> belongs to the protobuf library and is the
  parameter \<open>toMs\<close>.
\<close>

definition store_worker ::
  "(Timestamp \<Rightarrow> 64 word) \<Rightarrow> 64 word \<Rightarrow> (string \<rightharpoonup> LbClientStatus) \<Rightarrow> WorkerStatus \<Rightarrow>
   (string \<rightharpoonup> LbClientStatus)" where
  "store_worker toMs garbage stats_map w =
     (let name' = worker_name w;
          stats = (case stats_map name' of None \<Rightarrow> LbClientStatus_new garbage | Some s \<Rightarrow> s);
          stats = stats\<lparr>fillPercent := worker_fillpercent w\<rparr>;
          stats = stats\<lparr>controlSignal := worker_controlsignal w\<rparr>;
          stats = stats\<lparr>slotsAssigned := worker_slotsassigned w\<rparr>;
          stats = stats\<lparr>lastUpdated := worker_lastupdated w\<rparr>;
          stats = stats\<lparr>updateTime := toMs (lastUpdated stats)\<rparr>
      in stats_map(name' \<mapsto> stats))"

fun store_workers ::
  "(Timestamp \<Rightarrow> 64 word) \<Rightarrow> 64 word \<Rightarrow> (string \<rightharpoonup> LbClientStatus) \<Rightarrow> WorkerStatus list \<Rightarrow>
   (string \<rightharpoonup> LbClientStatus)" where
  "store_workers toMs garbage stats_map [] = stats_map"
| "store_workers toMs garbage stats_map (w # ws) =
     store_workers toMs garbage (store_worker toMs garbage stats_map w) ws"

definition LoadBalancerStatus ::
  "(Timestamp \<Rightarrow> 64 word) \<Rightarrow> 64 word \<Rightarrow>
   (LoadBalancerStatusRequest \<Rightarrow> Status \<times> LoadBalancerStatusReply) \<Rightarrow> LbReservation \<Rightarrow>
   int \<times> LbReservation \<times> event list" where
  "LoadBalancerStatus toMs garbage stub r =
     (let request = \<lparr>status_token = adminToken r, status_lbid = lbId r\<rparr>;
          (status, reply) = stub request;
          sent = [Rpc (cpTarget (cpAddr r) (cpPort r)) (LoadBalancerStatusCall request)]
      in if \<not> ok status then (1, r, sent)
         else (0, r\<lparr>clientStats := store_workers toMs garbage (clientStats r) (workers reply)\<rparr>,
               sent))"

text \<open>The static variant fills the map the caller passes by reference.\<close>

definition LoadBalancerStatus_static ::
  "(Timestamp \<Rightarrow> 64 word) \<Rightarrow> 64 word \<Rightarrow>
   (LoadBalancerStatusRequest \<Rightarrow> Status \<times> LoadBalancerStatusReply) \<Rightarrow>
   string \<Rightarrow> 16 word \<Rightarrow> string \<Rightarrow> string \<Rightarrow> (string \<rightharpoonup> LbClientStatus) \<Rightarrow>
   int \<times> (string \<rightharpoonup> LbClientStatus) \<times> event list" where
  "LoadBalancerStatus_static toMs garbage stub cpIP port lbId' adminToken' stats_map =
     (let request = \<lparr>status_token = adminToken', status_lbid = lbId'\<rparr>;
          (status, reply) = stub request;
          sent = [Rpc (cpTarget cpIP port) (LoadBalancerStatusCall request)]
      in if \<not> ok status then (1, stats_map, sent)
         else (0, store_workers toMs garbage stats_map (workers reply), sent))"

text \<open>
  The two predicates read the realtime clock (\<open>now\<close>) and the object, nothing else.
  \<^verbatim>\<open>now.tv_sec > untilSeconds\<close> compares two signed 64-bit integers.
\<close>

definition reservationElapsed :: "timespec \<Rightarrow> LbReservation \<Rightarrow> bool" where
  "reservationElapsed now r = (if sint (tv_sec now) > sint (untilSeconds r) then True else False)"

definition reserved :: "timespec \<Rightarrow> LbReservation \<Rightarrow> bool" where
  "reserved now r = (isReserved r \<and> \<not> reservationElapsed now r)"

section \<open>Address literals\<close>

text \<open>
  The two patterns of \<open>is_ipv4\<close> and \<open>is_ipv6\<close> use character classes, alternation,
  sequence, \<^verbatim>\<open>?\<close> and counted repetition. A pattern is a value of \<open>regex\<close>;
  \<open>residuals r s\<close> lists what can be left of \<open>s\<close> after a prefix of it matched \<open>r\<close>, and
  \<^verbatim>\<open>std::regex_match\<close>, which accepts when the whole string matches, asks for the empty
  rest. The anchors \<^verbatim>\<open>^\<close> and \<^verbatim>\<open>$\<close> of the source patterns hold at the two ends of the
  whole string and add nothing under \<^verbatim>\<open>regex_match\<close>.
\<close>

datatype regex =
    Class "(char \<times> char) list"
  | Empty
  | Alt regex regex
  | Seq regex regex

definition in_class :: "char \<Rightarrow> (char \<times> char) list \<Rightarrow> bool" where
  "in_class c ranges =
     list_ex (\<lambda>(lo, hi). (of_char lo :: nat) \<le> of_char c \<and> (of_char c :: nat) \<le> of_char hi) ranges"

fun residuals :: "regex \<Rightarrow> string \<Rightarrow> string list" where
  "residuals (Class ranges) [] = []"
| "residuals (Class ranges) (c # s) = (if in_class c ranges then [s] else [])"
| "residuals Empty s = [s]"
| "residuals (Alt a b) s = residuals a s @ residuals b s"
| "residuals (Seq a b) s = concat (map (residuals b) (residuals a s))"

definition regex_match :: "string \<Rightarrow> regex \<Rightarrow> bool" where
  "regex_match str r = ([] \<in> set (residuals r str))"

definition Lit :: "char \<Rightarrow> regex" where
  "Lit c = Class [(c, c)]"

definition Range :: "char \<Rightarrow> char \<Rightarrow> regex" where
  "Range lo hi = Class [(lo, hi)]"

definition Opt :: "regex \<Rightarrow> regex" where
  "Opt r = Alt r Empty"

primrec Times :: "nat \<Rightarrow> regex \<Rightarrow> regex" where
  "Times 0 r = Empty"
| "Times (Suc n) r = Seq r (Times n r)"

definition Between :: "nat \<Rightarrow> nat \<Rightarrow> regex \<Rightarrow> regex" where
  "Between m n r = Seq (Times m r) (Times (n - m) (Opt r))"

text \<open>\<^verbatim>\<open>(25[0-5]|2[0-4][0-9]|[01]?[0-9][0-9]?)\<close>\<close>

definition octet_regex :: regex where
  "octet_regex =
     Alt (Seq (Lit CHR ''2'') (Seq (Lit CHR ''5'') (Range CHR ''0'' CHR ''5'')))
    (Alt (Seq (Lit CHR ''2'') (Seq (Range CHR ''0'' CHR ''4'') (Range CHR ''0'' CHR ''9'')))
         (Seq (Opt (Class [(CHR ''0'', CHR ''0''), (CHR ''1'', CHR ''1'')]))
              (Seq (Range CHR ''0'' CHR ''9'') (Opt (Range CHR ''0'' CHR ''9'')))))"

text \<open>\<^verbatim>\<open>^((25[0-5]|2[0-4][0-9]|[01]?[0-9][0-9]?)\.){3}(25[0-5]|2[0-4][0-9]|[01]?[0-9][0-9]?)$\<close>\<close>

definition ipv4_regex :: regex where
  "ipv4_regex = Seq (Times 3 (Seq octet_regex (Lit CHR ''.''))) octet_regex"

definition is_ipv4 :: "string \<Rightarrow> bool" where
  "is_ipv4 str = regex_match str ipv4_regex"

text \<open>\<^verbatim>\<open>^([0-9a-fA-F]{1,4}:){7}[0-9a-fA-F]{1,4}$\<close>\<close>

definition hex_class :: regex where
  "hex_class = Class [(CHR ''0'', CHR ''9''), (CHR ''a'', CHR ''f''), (CHR ''A'', CHR ''F'')]"

definition ipv6_regex :: regex where
  "ipv6_regex =
     Seq (Times 7 (Seq (Between 1 4 hex_class) (Lit CHR '':''))) (Between 1 4 hex_class)"

definition is_ipv6 :: "string \<Rightarrow> bool" where
  "is_ipv6 str = regex_match str ipv6_regex"

text \<open>
  \<open>resolve_host\<close> asks \<^verbatim>\<open>getaddrinfo\<close> for the addresses of the name and prints each
  with \<^verbatim>\<open>inet_ntop\<close>. The operating system's part is the parameter \<open>getaddrinfo\<close>: the
  printed addresses in the order of the result list, or \<open>None\<close> when the lookup fails.
  The loop overwrites \<open>ipv4\<close> (\<open>ipv6\<close>) with each printed address that passes
  \<open>is_ipv4\<close> (\<open>is_ipv6\<close>).
\<close>

fun resolve_loop :: "string list \<Rightarrow> string \<times> string \<Rightarrow> string \<times> string" where
  "resolve_loop [] (ipv4, ipv6) = (ipv4, ipv6)"
| "resolve_loop (ipstr # rest) (ipv4, ipv6) =
     resolve_loop rest
       (if is_ipv4 ipstr then ipstr else ipv4, if is_ipv6 ipstr then ipstr else ipv6)"

definition resolve_host ::
  "(string \<Rightarrow> string list option) \<Rightarrow> string \<Rightarrow> string \<Rightarrow> string \<Rightarrow> bool \<times> string \<times> string" where
  "resolve_host getaddrinfo host_name ipv4 ipv6 =
     (case getaddrinfo (c_str host_name) of
        None \<Rightarrow> (False, ipv4, ipv6)
      | Some result \<Rightarrow> (True, resolve_loop result (ipv4, ipv6)))"

text \<open>
  Both URI-producing functions turn \<open>cpIP\<close> into the address they print with the same
  lines, written once here: the address, and the resolver event when there was a lookup.
\<close>

definition ipAddr_of ::
  "(string \<Rightarrow> string list option) \<Rightarrow> string \<Rightarrow> bool \<Rightarrow> string \<times> event list" where
  "ipAddr_of getaddrinfo cpIP useIPv6 =
     (if \<not> (is_ipv4 cpIP \<or> is_ipv6 cpIP) then
        (let (ran, ipV4, ipV6) = resolve_host getaddrinfo cpIP [] []
         in (if useIPv6 \<and> ipV6 \<noteq> [] then ipV6
             else if ipV4 \<noteq> [] then ipV4
             else cpIP,
             [Getaddrinfo (c_str cpIP)]))
      else (cpIP, []))"

section \<open>The static URI-producing functions\<close>

text \<open>
  \<^verbatim>\<open>"ejfat://%s@%s:%hu/lb/%s?data=%s:%d&sync=%s:%d"\<close> and, without the token,
  \<^verbatim>\<open>"ejfat://%s:%hu/lb/%s?data=%s:%d&sync=%s:%d"\<close>. The last argument is the reply's
  unsigned 32-bit port, printed by \<^verbatim>\<open>%d\<close> as a signed integer.
\<close>

definition reserve_uri ::
  "string \<Rightarrow> string \<Rightarrow> 16 word \<Rightarrow> string \<Rightarrow> string \<Rightarrow> int \<Rightarrow> string \<Rightarrow> 32 word \<Rightarrow> string" where
  "reserve_uri tok ipAddr port lbid dataAddr dataPort syncIP syncPort =
     ''ejfat://'' @ c_str tok @ ''@'' @ c_str ipAddr @ '':'' @ to_string (unat port) @
     ''/lb/'' @ c_str lbid @ ''?data='' @ c_str dataAddr @ '':'' @ printf_d dataPort @
     ''&sync='' @ c_str syncIP @ '':'' @ printf_d (sint syncPort)"

definition lookup_uri ::
  "string \<Rightarrow> 16 word \<Rightarrow> string \<Rightarrow> string \<Rightarrow> int \<Rightarrow> string \<Rightarrow> 32 word \<Rightarrow> string" where
  "lookup_uri ipAddr port lbid dataAddr dataPort syncIP syncPort =
     ''ejfat://'' @ c_str ipAddr @ '':'' @ to_string (unat port) @
     ''/lb/'' @ c_str lbid @ ''?data='' @ c_str dataAddr @ '':'' @ printf_d dataPort @
     ''&sync='' @ c_str syncIP @ '':'' @ printf_d (sint syncPort)"

definition ReserveLoadBalancer_static ::
  "(ReserveLoadBalancerRequest \<Rightarrow> Status \<times> ReserveLoadBalancerReply) \<Rightarrow>
   (string \<Rightarrow> string list option) \<Rightarrow>
   string \<Rightarrow> 16 word \<Rightarrow> string \<Rightarrow> string \<Rightarrow> 64 word \<Rightarrow> bool \<Rightarrow> (error + string) \<times> event list" where
  "ReserveLoadBalancer_static stub getaddrinfo cpIP port lbName' adminToken' untilSeconds' useIPv6 =
     (let request = ReserveLoadBalancer_request adminToken' lbName' untilSeconds';
          (status, reply) = stub request;
          sent = [Rpc (cpTarget cpIP port) (ReserveLoadBalancerCall request)];
          (ipAddr, looked_up) = ipAddr_of getaddrinfo cpIP useIPv6;
          syncIP = reply_syncipaddress reply;
          syncIP = (if syncIP = [] \<or> length syncIP < 16 then ipAddr else syncIP);
          url =
            (if \<not> ok status then sprintf_url (''error = '' @ c_str (error_message status))
             else if useIPv6 then
               sprintf_url (reserve_uri (reply_token reply) ipAddr port (reply_lbid reply)
                 (reply_dataipv6address reply) 19522 syncIP (reply_syncudpport reply))
             else
               sprintf_url (reserve_uri (reply_token reply) ipAddr port (reply_lbid reply)
                 (reply_dataipv4address reply) 19522 syncIP (reply_syncudpport reply)))
      in (url, sent @ looked_up))"

definition GetLbUri ::
  "(GetLoadBalancerRequest \<Rightarrow> Status \<times> ReserveLoadBalancerReply) \<Rightarrow>
   (string \<Rightarrow> string list option) \<Rightarrow>
   string \<Rightarrow> 16 word \<Rightarrow> string \<Rightarrow> string \<Rightarrow> bool \<Rightarrow> (error + string) \<times> event list" where
  "GetLbUri stub getaddrinfo cpIP port lbId' adminToken' useIPv6 =
     (let request = \<lparr>get_token = adminToken', get_lbid = lbId'\<rparr>;
          (status, reply) = stub request;
          sent = [Rpc (cpTarget cpIP port) (GetLoadBalancerCall request)];
          (ipAddr, looked_up) = ipAddr_of getaddrinfo cpIP useIPv6;
          syncIP = reply_syncipaddress reply;
          syncIP = (if syncIP = [] \<or> length syncIP < 16 then ipAddr else syncIP);
          url =
            (if \<not> ok status then sprintf_url (''error = '' @ c_str (error_message status))
             else if useIPv6 then
               sprintf_url (lookup_uri ipAddr port (reply_lbid reply)
                 (reply_dataipv6address reply) 19522 syncIP (reply_syncudpport reply))
             else
               sprintf_url (lookup_uri ipAddr port (reply_lbid reply)
                 (reply_dataipv4address reply) 19522 syncIP (reply_syncudpport reply)))
      in (url, sent @ looked_up))"

section \<open>Sequences of calls\<close>

text \<open>
  A caller uses one object through a sequence of its public member functions. Each call
  is given with what the outside world answers to it: the server's status and reply, and
  for \<open>SendState\<close> the reading of the clock.
\<close>

datatype client_call =
    CallRegister "Status \<times> RegisterReply"
  | CallUpdate float32 float32 bool
  | CallSendState Status timespec
  | CallDeregister Status

fun client_step :: "LbControlPlaneClient \<Rightarrow> client_call \<Rightarrow> LbControlPlaneClient" where
  "client_step c (CallRegister answer) = fst (snd (Register (\<lambda>request. answer) c))"
| "client_step c (CallUpdate fill pidErr ready) = update fill pidErr ready c"
| "client_step c (CallSendState status t1) = fst (snd (SendState (\<lambda>request. status) t1 c))"
| "client_step c (CallDeregister status) = fst (snd (Deregister (\<lambda>request. status) c))"

definition client_run :: "LbControlPlaneClient \<Rightarrow> client_call list \<Rightarrow> LbControlPlaneClient" where
  "client_run c calls = foldl client_step c calls"

fun register_succeeded :: "client_call \<Rightarrow> bool" where
  "register_succeeded (CallRegister answer) = ok (fst answer)"
| "register_succeeded call = False"

datatype lb_call =
    CallReserve "Status \<times> ReserveLoadBalancerReply"
  | CallFree Status
  | CallStatus "Status \<times> LoadBalancerStatusReply"

fun lb_step :: "(Timestamp \<Rightarrow> 64 word) \<Rightarrow> 64 word \<Rightarrow> LbReservation \<Rightarrow> lb_call \<Rightarrow> LbReservation" where
  "lb_step toMs garbage r (CallReserve answer) =
     fst (snd (ReserveLoadBalancer (\<lambda>request. answer) r))"
| "lb_step toMs garbage r (CallFree status) =
     fst (snd (FreeLoadBalancer (\<lambda>request. status) r))"
| "lb_step toMs garbage r (CallStatus answer) =
     fst (snd (LoadBalancerStatus toMs garbage (\<lambda>request. answer) r))"

definition lb_run ::
  "(Timestamp \<Rightarrow> 64 word) \<Rightarrow> 64 word \<Rightarrow> LbReservation \<Rightarrow> lb_call list \<Rightarrow> LbReservation" where
  "lb_run toMs garbage r calls = foldl (lb_step toMs garbage) r calls"

fun reserve_succeeded :: "lb_call \<Rightarrow> bool" where
  "reserve_succeeded (CallReserve answer) = ok (fst answer)"
| "reserve_succeeded call = False"

section \<open>Sample values\<close>

text \<open>Concrete statuses, objects and replies at which the theorems below are instantiated.\<close>

definition status_ok :: Status where
  "status_ok = \<lparr>error_code = 0, error_message = []\<rparr>"

definition status_unavailable :: Status where
  "status_unavailable = \<lparr>error_code = 14, error_message = ''failed to connect''\<rparr>"

definition sample_client :: LbControlPlaneClient where
  "sample_client =
     LbControlPlaneClient_new ''192.168.0.3'' 18347 ''192.168.0.7'' 17750 0
       ''backend1'' ''secret'' ''lb7'' 0x3F800000 (0, 0)"

definition sample_register_reply :: RegisterReply where
  "sample_register_reply = \<lparr>regrep_sessionid = ''s42'', regrep_token = ''stok''\<rparr>"

definition sample_clock :: timespec where
  "sample_clock = \<lparr>tv_sec = 1700000000, tv_nsec = 500\<rparr>"

definition sample_reply :: ReserveLoadBalancerReply where
  "sample_reply =
     \<lparr>reply_token = ''tok123'', reply_lbid = ''lb7'', reply_syncipaddress = ''10.0.0.1'',
      reply_syncudpport = 18000, reply_dataipv4address = ''10.0.0.5'',
      reply_dataipv6address = []\<rparr>"

definition sample_reservation :: LbReservation where
  "sample_reservation = LbReservation_new ''192.168.0.3'' 18347 ''test'' ''admin'' 1700003600 0"

definition sample_worker :: WorkerStatus where
  "sample_worker =
     \<lparr>worker_name = ''backend1'', worker_fillpercent = 0x3F000000,
      worker_controlsignal = 0, worker_slotsassigned = 128,
      worker_lastupdated = \<lparr>seconds = 1700000000, nanos = 250000000\<rparr>\<rparr>"

definition sample_toMs :: "Timestamp \<Rightarrow> 64 word" where
  "sample_toMs ts = seconds ts * 1000"

definition empty_reply :: ReserveLoadBalancerReply where
  "empty_reply =
     \<lparr>reply_token = [], reply_lbid = [], reply_syncipaddress = [], reply_syncudpport = 0,
      reply_dataipv4address = [], reply_dataipv6address = []\<rparr>"

definition status_long_message :: Status where
  "status_long_message = \<lparr>error_code = 14, error_message = replicate 248 CHR ''x''\<rparr>"

definition sample_getaddrinfo :: "string \<Rightarrow> string list option" where
  "sample_getaddrinfo host = (if host = ''localhost'' then Some [''::1'', ''127.0.0.1''] else None)"

section \<open>Vocabulary of the statements\<close>

text \<open>
  The Client Stats record that one worker of a status reply stands for: its four reported
  fields and the milliseconds computed from the reported timestamp.
\<close>

definition stats_of :: "(Timestamp \<Rightarrow> 64 word) \<Rightarrow> WorkerStatus \<Rightarrow> LbClientStatus" where
  "stats_of toMs w =
     \<lparr>fillPercent = worker_fillpercent w, controlSignal = worker_controlsignal w,
      slotsAssigned = worker_slotsassigned w, lastUpdated = worker_lastupdated w,
      updateTime = toMs (worker_lastupdated w)\<rparr>"

text \<open>The last worker of a reply that carries a given name, if any.\<close>

definition last_named :: "string \<Rightarrow> WorkerStatus list \<Rightarrow> WorkerStatus option" where
  "last_named n ws = find (\<lambda>w. worker_name w = n) (rev ws)"

text \<open>
  The set of strings a pattern stands for, and the two address forms in words: four
  octets in decimal (one to three digits, value at most 255) joined by dots, and eight
  groups of one to four hexadecimal digits joined by colons.
\<close>

fun lang :: "regex \<Rightarrow> string set" where
  "lang (Class ranges) = {[c] | c. in_class c ranges}"
| "lang Empty = {[]}"
| "lang (Alt a b) = lang a \<union> lang b"
| "lang (Seq a b) = {u @ v | u v. u \<in> lang a \<and> v \<in> lang b}"

fun join :: "string \<Rightarrow> string list \<Rightarrow> string" where
  "join sep [] = []"
| "join sep [p] = p"
| "join sep (p # q # ps) = p @ sep @ join sep (q # ps)"

definition is_digit :: "char \<Rightarrow> bool" where
  "is_digit c = ((48 :: nat) \<le> of_char c \<and> (of_char c :: nat) \<le> 57)"

definition decimal :: "string \<Rightarrow> nat" where
  "decimal s = foldl (\<lambda>n c. 10 * n + (of_char c - 48)) 0 s"

definition octet_text :: "string \<Rightarrow> bool" where
  "octet_text s = (s \<noteq> [] \<and> length s \<le> 3 \<and> list_all is_digit s \<and> decimal s \<le> 255)"

definition dotted_quad :: "string \<Rightarrow> bool" where
  "dotted_quad s = (\<exists>parts. length parts = 4 \<and> list_all octet_text parts \<and> s = join ''.'' parts)"

definition is_hex_digit :: "char \<Rightarrow> bool" where
  "is_hex_digit c =
     (((48 :: nat) \<le> of_char c \<and> (of_char c :: nat) \<le> 57) \<or>
      ((97 :: nat) \<le> of_char c \<and> (of_char c :: nat) \<le> 102) \<or>
      ((65 :: nat) \<le> of_char c \<and> (of_char c :: nat) \<le> 70))"

definition hex_group :: "string \<Rightarrow> bool" where
  "hex_group s = (1 \<le> length s \<and> length s \<le> 4 \<and> list_all is_hex_digit s)"

definition colon_groups :: "string \<Rightarrow> bool" where
  "colon_groups s = (\<exists>parts. length parts = 8 \<and> list_all hex_group parts \<and> s = join '':'' parts)"

text \<open>The last element of a list that passes a test, or a default when none does.\<close>

definition last_matching :: "('a \<Rightarrow> bool) \<Rightarrow> 'a \<Rightarrow> 'a list \<Rightarrow> 'a" where
  "last_matching P d xs = (case find P (rev xs) of None \<Rightarrow> d | Some x \<Rightarrow> x)"

section \<open>Properties of LbControlPlaneClient\<close>

lemma ok_status_ok [simp]: "ok status_ok"
  by (simp add: ok_def status_ok_def)

lemma not_ok_status_unavailable [simp]: "\<not> ok status_unavailable"
  by (simp add: ok_def status_unavailable_def)

lemma Register_failed:
  "\<not> ok (fst (stub (Register_request c))) \<Longrightarrow>
   Register stub c =
     (1, c, [Rpc (cpTarget (cl_cpAddr c) (cl_cpPort c)) (RegisterCall (Register_request c))])"
  by (cases "stub (Register_request c)") (simp add: Register_def Let_def)

lemma Register_succeeded:
  "ok (fst (stub (Register_request c))) \<Longrightarrow>
   Register stub c =
     (0,
      c\<lparr>sessionId := regrep_sessionid (snd (stub (Register_request c))),
        sessionToken := regrep_token (snd (stub (Register_request c)))\<rparr>,
      [Rpc (cpTarget (cl_cpAddr c) (cl_cpPort c)) (RegisterCall (Register_request c))])"
  by (cases "stub (Register_request c)") (simp add: Register_def Let_def)

lemma SendState_result:
  "SendState stub t1 c =
     (if ok (stub (SendState_request t1 c)) then 0 else 1, c,
      [Rpc (cpTarget (cl_cpAddr c) (cl_cpPort c)) (SendStateCall (SendState_request t1 c))])"
  by (simp add: SendState_def Let_def)

lemma Deregister_result:
  "Deregister stub c =
     (if ok (stub (Deregister_request c)) then 0 else 1, c,
      [Rpc (cpTarget (cl_cpAddr c) (cl_cpPort c)) (DeregisterCall (Deregister_request c))])"
  by (simp add: Deregister_def Let_def)

text \<open>
  Only a successful \<open>Register\<close> writes the session fields; no call writes the address
  of the control plane.
\<close>

lemma client_step_session:
  "\<not> register_succeeded call \<Longrightarrow>
   sessionId (client_step c call) = sessionId c \<and>
   sessionToken (client_step c call) = sessionToken c"
  by (cases call)
     (simp_all add: Register_failed SendState_result Deregister_result update_def)

lemma client_step_target:
  "cl_cpAddr (client_step c call) = cl_cpAddr c \<and> cl_cpPort (client_step c call) = cl_cpPort c"
proof (cases call)
  case (CallRegister answer)
  then show ?thesis
    by (cases "ok (fst answer)") (simp_all add: Register_failed Register_succeeded)
qed (simp_all add: SendState_result Deregister_result update_def)

lemma client_run_session:
  "\<not> list_ex register_succeeded calls \<Longrightarrow>
   sessionId (client_run c calls) = sessionId c \<and>
   sessionToken (client_run c calls) = sessionToken c"
  unfolding client_run_def
  by (induction calls arbitrary: c) (simp_all add: client_step_session)

lemma client_run_target:
  "cl_cpAddr (client_run c calls) = cl_cpAddr c \<and> cl_cpPort (client_run c calls) = cl_cpPort c"
  unfolding client_run_def
  by (induction calls arbitrary: c) (simp_all add: client_step_target)

text \<open>
  C6. When the status of the \<open>Register\<close> call is not OK, the method returns 1 and the
  object, with its \<open>sessionId\<close> and \<open>sessionToken\<close>, is as before. The two fields take
  new values only in a \<open>Register\<close> whose status is OK, and the values are the reply's
  \<open>sessionid\<close> and \<open>token\<close>; no other member call (\<open>update\<close>, \<open>SendState\<close>,
  \<open>Deregister\<close>, a failed \<open>Register\<close>) changes them.
\<close>

theorem Register_failure_leaves_session:
  "(\<not> ok (fst (stub (Register_request c))) \<longrightarrow>
      fst (Register stub c) = 1 \<and> fst (snd (Register stub c)) = c) \<and>
   (ok (fst (stub (Register_request c))) \<longrightarrow>
      fst (Register stub c) = 0 \<and>
      sessionId (fst (snd (Register stub c))) = regrep_sessionid (snd (stub (Register_request c))) \<and>
      sessionToken (fst (snd (Register stub c))) = regrep_token (snd (stub (Register_request c)))) \<and>
   (\<not> register_succeeded call \<longrightarrow>
      sessionId (client_step c call) = sessionId c \<and>
      sessionToken (client_step c call) = sessionToken c)"
  by (simp add: Register_failed Register_succeeded client_step_session)

theorem Register_failure_leaves_session_witness:
  "\<not> ok (fst (status_unavailable, sample_register_reply)) \<and>
   fst (Register (\<lambda>request. (status_unavailable, sample_register_reply)) sample_client) = 1 \<and>
   fst (snd (Register (\<lambda>request. (status_unavailable, sample_register_reply)) sample_client))
     = sample_client \<and>
   sessionId (fst (snd (Register (\<lambda>request. (status_unavailable, sample_register_reply))
     sample_client))) = [] \<and>
   ok (fst (status_ok, sample_register_reply)) \<and>
   sessionId (fst (snd (Register (\<lambda>request. (status_ok, sample_register_reply)) sample_client)))
     = ''s42'' \<and>
   \<not> register_succeeded (CallSendState status_ok sample_clock) \<and>
   sessionId (client_step sample_client (CallSendState status_ok sample_clock)) = []"
  using Register_failure_leaves_session
          [of "\<lambda>request. (status_unavailable, sample_register_reply)" sample_client
              "CallSendState status_ok sample_clock"]
        Register_failure_leaves_session
          [of "\<lambda>request. (status_ok, sample_register_reply)" sample_client
              "CallSendState status_ok sample_clock"]
  by (simp add: sample_client_def LbControlPlaneClient_new_def sample_register_reply_def)

text \<open>
  C8. After a \<open>Register\<close> whose status is OK, the object holds the reply's \<open>sessionid\<close>
  and \<open>token\<close>. Through any later calls on the object among which no further \<open>Register\<close>
  succeeds, every \<open>SendState\<close> sends exactly one request, and it carries that session id
  and token; so does every \<open>Deregister\<close>.
\<close>

theorem session_fields_carried:
  assumes "ok (fst (stub (Register_request c)))"
    and "\<not> list_ex register_succeeded calls"
  shows "sessionId (fst (snd (Register stub c))) = regrep_sessionid (snd (stub (Register_request c))) \<and>
         sessionToken (fst (snd (Register stub c))) = regrep_token (snd (stub (Register_request c))) \<and>
         (\<exists>request.
            snd (snd (SendState stub2 t1 (client_run (fst (snd (Register stub c))) calls))) =
              [Rpc (cpTarget (cl_cpAddr c) (cl_cpPort c)) (SendStateCall request)] \<and>
            state_sessionid request = regrep_sessionid (snd (stub (Register_request c))) \<and>
            state_token request = regrep_token (snd (stub (Register_request c)))) \<and>
         (\<exists>request.
            snd (snd (Deregister stub3 (client_run (fst (snd (Register stub c))) calls))) =
              [Rpc (cpTarget (cl_cpAddr c) (cl_cpPort c)) (DeregisterCall request)] \<and>
            dereg_sessionid request = regrep_sessionid (snd (stub (Register_request c))) \<and>
            dereg_token request = regrep_token (snd (stub (Register_request c))))"
proof -
  let ?c1 = "fst (snd (Register stub c))"
  let ?c' = "client_run ?c1 calls"
  have c1: "?c1 = c\<lparr>sessionId := regrep_sessionid (snd (stub (Register_request c))),
                     sessionToken := regrep_token (snd (stub (Register_request c)))\<rparr>"
    using assms(1) by (simp add: Register_succeeded)
  have kept: "sessionId ?c' = sessionId ?c1 \<and> sessionToken ?c' = sessionToken ?c1"
    using assms(2) by (rule client_run_session)
  have target: "cl_cpAddr ?c' = cl_cpAddr c \<and> cl_cpPort ?c' = cl_cpPort c"
    using client_run_target [of ?c1 calls] by (simp add: c1)
  have send: "snd (snd (SendState stub2 t1 ?c')) =
      [Rpc (cpTarget (cl_cpAddr c) (cl_cpPort c)) (SendStateCall (SendState_request t1 ?c'))]"
    by (simp add: SendState_result target)
  have dereg: "snd (snd (Deregister stub3 ?c')) =
      [Rpc (cpTarget (cl_cpAddr c) (cl_cpPort c)) (DeregisterCall (Deregister_request ?c'))]"
    by (simp add: Deregister_result target)
  have s1: "state_sessionid (SendState_request t1 ?c') = sessionId ?c'"
    and s2: "state_token (SendState_request t1 ?c') = sessionToken ?c'"
    by (simp_all add: SendState_request_def)
  have d1: "dereg_sessionid (Deregister_request ?c') = sessionId ?c'"
    and d2: "dereg_token (Deregister_request ?c') = sessionToken ?c'"
    by (simp_all add: Deregister_request_def)
  have id1: "sessionId ?c1 = regrep_sessionid (snd (stub (Register_request c)))"
    and tok1: "sessionToken ?c1 = regrep_token (snd (stub (Register_request c)))"
    by (simp_all add: c1)
  show ?thesis
    using send dereg s1 s2 d1 d2 kept id1 tok1 by metis
qed

theorem session_fields_carried_witness:
  "ok (fst (status_ok, sample_register_reply)) \<and>
   \<not> list_ex register_succeeded [CallUpdate 1 2 True, CallSendState status_ok sample_clock] \<and>
   sessionId (fst (snd (Register (\<lambda>request. (status_ok, sample_register_reply)) sample_client)))
     = ''s42'' \<and>
   (\<exists>request.
      snd (snd (SendState (\<lambda>request. status_ok) sample_clock
        (client_run (fst (snd (Register (\<lambda>request. (status_ok, sample_register_reply))
           sample_client))) [CallUpdate 1 2 True, CallSendState status_ok sample_clock]))) =
        [Rpc ''192.168.0.3:18347'' (SendStateCall request)] \<and>
      state_sessionid request = ''s42'' \<and> state_token request = ''stok'') \<and>
   (\<exists>request.
      snd (snd (Deregister (\<lambda>request. status_ok)
        (client_run (fst (snd (Register (\<lambda>request. (status_ok, sample_register_reply))
           sample_client))) [CallUpdate 1 2 True, CallSendState status_ok sample_clock]))) =
        [Rpc ''192.168.0.3:18347'' (DeregisterCall request)] \<and>
      dereg_sessionid request = ''s42'' \<and> dereg_token request = ''stok'')"
proof -
  have target: "cpTarget (cl_cpAddr sample_client) (cl_cpPort sample_client) = ''192.168.0.3:18347''"
    by (simp add: sample_client_def LbControlPlaneClient_new_def cpTarget_def to_string.simps)
  show ?thesis
    using session_fields_carried
            [where stub = "\<lambda>request. (status_ok, sample_register_reply)" and c = sample_client
               and calls = "[CallUpdate 1 2 True, CallSendState status_ok sample_clock]"
               and ?stub2.0 = "\<lambda>request. status_ok" and ?t1.0 = sample_clock
               and ?stub3.0 = "\<lambda>request. status_ok"]
    by (simp add: target sample_register_reply_def)
qed

text \<open>
  C2 as stated does not hold: \<open>SendState\<close> has no test of the session fields. On an
  object fresh from the constructor, with a server that answers OK, it sends its request
  (with empty session id and token) and returns 0.
\<close>

theorem SendState_unregistered_counterexample:
  "SendState (\<lambda>request. status_ok) sample_clock sample_client =
     (0, sample_client,
      [Rpc ''192.168.0.3:18347''
         (SendStateCall
            \<lparr>state_token = [], state_lbid = ''lb7'', state_sessionid = [],
             state_timestamp = \<lparr>seconds = 1700000000, nanos = 500\<rparr>,
             state_fillpercent = 0, state_controlsignal = 0, state_isready = True\<rparr>)])"
  by (simp add: SendState_result SendState_request_def sample_client_def
        LbControlPlaneClient_new_def sample_clock_def cpTarget_def to_string.simps)

text \<open>
  C2, amended. On an object on which no \<open>Register\<close> has succeeded since its
  construction, \<open>SendState\<close> performs exactly one network exchange: it sends one
  \<open>SendState\<close> request to the control plane, whose session id and token are the empty
  strings, leaves the object as it is, and returns 0 when the status of the call is OK and
  1 otherwise.
\<close>

theorem SendState_before_Register:
  assumes "\<not> list_ex register_succeeded calls"
  shows "let c = client_run
                   (LbControlPlaneClient_new cpIP port beIP bePort' beRange' cliName token'
                      lbId' weight' garbage) calls;
             request = SendState_request t1 c
         in SendState stub t1 c =
              (if ok (stub request) then 0 else 1, c,
               [Rpc (cpTarget cpIP port) (SendStateCall request)]) \<and>
            state_sessionid request = [] \<and> state_token request = []"
proof -
  let ?c0 = "LbControlPlaneClient_new cpIP port beIP bePort' beRange' cliName token'
               lbId' weight' garbage"
  have "sessionId (client_run ?c0 calls) = sessionId ?c0 \<and>
        sessionToken (client_run ?c0 calls) = sessionToken ?c0"
    using assms by (rule client_run_session)
  moreover have "cl_cpAddr (client_run ?c0 calls) = cpIP \<and> cl_cpPort (client_run ?c0 calls) = port"
    using client_run_target [of ?c0 calls] by (simp add: LbControlPlaneClient_new_def)
  ultimately show ?thesis
    by (simp add: Let_def SendState_result SendState_request_def LbControlPlaneClient_new_def)
qed

theorem SendState_before_Register_witness:
  "\<not> list_ex register_succeeded
       [CallUpdate 1 2 True, CallRegister (status_unavailable, sample_register_reply)] \<and>
   fst (SendState (\<lambda>request. status_ok) sample_clock
          (client_run sample_client
             [CallUpdate 1 2 True, CallRegister (status_unavailable, sample_register_reply)])) = 0 \<and>
   snd (snd (SendState (\<lambda>request. status_ok) sample_clock
          (client_run sample_client
             [CallUpdate 1 2 True, CallRegister (status_unavailable, sample_register_reply)]))) =
     [Rpc ''192.168.0.3:18347''
        (SendStateCall
           (SendState_request sample_clock
              (client_run sample_client
                 [CallUpdate 1 2 True,
                  CallRegister (status_unavailable, sample_register_reply)])))] \<and>
   state_sessionid
     (SendState_request sample_clock
        (client_run sample_client
           [CallUpdate 1 2 True, CallRegister (status_unavailable, sample_register_reply)])) = []"
  using SendState_before_Register
          [where calls = "[CallUpdate 1 2 True,
                           CallRegister (status_unavailable, sample_register_reply)]"
             and cpIP = "''192.168.0.3''" and port = 18347 and beIP = "''192.168.0.7''"
             and bePort' = 17750 and beRange' = 0 and cliName = "''backend1''"
             and token' = "''secret''" and lbId' = "''lb7''" and weight' = "0x3F800000"
             and garbage = "(0, 0)" and ?t1.0 = sample_clock and stub = "\<lambda>request. status_ok"]
  by (simp add: Let_def sample_client_def [symmetric] cpTarget_def to_string.simps)

section \<open>Properties of LbReservation\<close>

lemma ReserveLoadBalancer_failed:
  "\<not> ok (fst (stub (ReserveLoadBalancer_request (adminToken r) (lbName r) (untilSeconds r)))) \<Longrightarrow>
   ReserveLoadBalancer stub r =
     (1, r,
      [Rpc (cpTarget (cpAddr r) (cpPort r))
         (ReserveLoadBalancerCall
            (ReserveLoadBalancer_request (adminToken r) (lbName r) (untilSeconds r)))])"
  by (cases "stub (ReserveLoadBalancer_request (adminToken r) (lbName r) (untilSeconds r))")
     (simp add: ReserveLoadBalancer_def Let_def)

lemma ReserveLoadBalancer_succeeded:
  assumes "stub (ReserveLoadBalancer_request (adminToken r) (lbName r) (untilSeconds r))
             = (status, reply)"
    and "ok status"
  shows "ReserveLoadBalancer stub r =
     (0,
      r\<lparr>instanceToken := reply_token reply,
        lbId := reply_lbid reply,
        syncIpAddress :=
          (if length (reply_syncipaddress reply) < 16 then cpAddr r
           else reply_syncipaddress reply),
        syncUdpPort := ucast (reply_syncudpport reply),
        dataIpv4Address := reply_dataipv4address reply,
        dataIpv6Address := reply_dataipv6address reply,
        isReserved := True\<rparr>,
      [Rpc (cpTarget (cpAddr r) (cpPort r))
         (ReserveLoadBalancerCall
            (ReserveLoadBalancer_request (adminToken r) (lbName r) (untilSeconds r)))])"
  using assms by (auto simp add: ReserveLoadBalancer_def Let_def)

lemma FreeLoadBalancer_result:
  "FreeLoadBalancer stub r =
     (if ok (stub \<lparr>free_token = adminToken r, free_lbid = lbId r\<rparr>) then 0 else 1, r,
      [Rpc (cpTarget (cpAddr r) (cpPort r))
         (FreeLoadBalancerCall \<lparr>free_token = adminToken r, free_lbid = lbId r\<rparr>)])"
  by (simp add: FreeLoadBalancer_def Let_def)

lemma LoadBalancerStatus_failed:
  "\<not> ok (fst (stub \<lparr>status_token = adminToken r, status_lbid = lbId r\<rparr>)) \<Longrightarrow>
   fst (snd (LoadBalancerStatus toMs garbage stub r)) = r"
  by (cases "stub \<lparr>status_token = adminToken r, status_lbid = lbId r\<rparr>")
     (simp add: LoadBalancerStatus_def Let_def)

lemma LoadBalancerStatus_succeeded:
  "ok (fst (stub \<lparr>status_token = adminToken r, status_lbid = lbId r\<rparr>)) \<Longrightarrow>
   LoadBalancerStatus toMs garbage stub r =
     (0,
      r\<lparr>clientStats :=
          store_workers toMs garbage (clientStats r)
            (workers (snd (stub \<lparr>status_token = adminToken r, status_lbid = lbId r\<rparr>)))\<rparr>,
      [Rpc (cpTarget (cpAddr r) (cpPort r))
         (LoadBalancerStatusCall \<lparr>status_token = adminToken r, status_lbid = lbId r\<rparr>)])"
  by (cases "stub \<lparr>status_token = adminToken r, status_lbid = lbId r\<rparr>")
     (simp add: LoadBalancerStatus_def Let_def)

subsection \<open>The reserved flag along a sequence of calls\<close>

lemma lb_step_untilSeconds: "untilSeconds (lb_step toMs garbage r call) = untilSeconds r"
proof (cases call)
  case (CallReserve answer)
  obtain status reply where answer: "answer = (status, reply)"
    by (cases answer)
  show ?thesis
    by (cases "ok status")
       (simp_all add: CallReserve answer ReserveLoadBalancer_failed
          ReserveLoadBalancer_succeeded [where status = status and reply = reply])
next
  case (CallFree status)
  then show ?thesis by (simp add: FreeLoadBalancer_result)
next
  case (CallStatus answer)
  then show ?thesis
    by (cases "ok (fst answer)")
       (simp_all add: LoadBalancerStatus_failed LoadBalancerStatus_succeeded)
qed

lemma lb_step_isReserved:
  "isReserved (lb_step toMs garbage r call) = (isReserved r \<or> reserve_succeeded call)"
proof (cases call)
  case (CallReserve answer)
  obtain status reply where answer: "answer = (status, reply)"
    by (cases answer)
  show ?thesis
    by (cases "ok status")
       (simp_all add: CallReserve answer ReserveLoadBalancer_failed
          ReserveLoadBalancer_succeeded [where status = status and reply = reply])
next
  case (CallFree status)
  then show ?thesis by (simp add: FreeLoadBalancer_result)
next
  case (CallStatus answer)
  then show ?thesis
    by (cases "ok (fst answer)")
       (simp_all add: LoadBalancerStatus_failed LoadBalancerStatus_succeeded)
qed

lemma lb_run_untilSeconds: "untilSeconds (lb_run toMs garbage r calls) = untilSeconds r"
  unfolding lb_run_def
  by (induction calls arbitrary: r) (simp_all add: lb_step_untilSeconds)

lemma lb_run_isReserved:
  "isReserved (lb_run toMs garbage r calls) = (isReserved r \<or> list_ex reserve_succeeded calls)"
  unfolding lb_run_def
  by (induction calls arbitrary: r) (auto simp add: lb_step_isReserved)

text \<open>
  C3. On an object built by the constructor with expiry \<open>until'\<close> and then used through
  any sequence of member calls, \<open>reserved()\<close> read at clock value \<open>now\<close> is true exactly
  when some \<open>ReserveLoadBalancer\<close> call of the sequence had an OK status and the seconds
  of \<open>now\<close> do not exceed \<open>until'\<close>; \<open>reservationElapsed()\<close> is true exactly when the
  seconds of \<open>now\<close> exceed \<open>until'\<close> (as signed 64-bit integers). Both are functions of
  the clock reading and the object alone: every read computes them from the clock value
  of that read, and neither has a stub to call.
\<close>

theorem reserved_iff:
  "reserved now
     (lb_run toMs garbage (LbReservation_new cpIP port lbName' admintoken until' garbage2) calls) =
     (list_ex reserve_succeeded calls \<and> \<not> sint until' < sint (tv_sec now)) \<and>
   reservationElapsed now
     (lb_run toMs garbage (LbReservation_new cpIP port lbName' admintoken until' garbage2) calls) =
     (sint until' < sint (tv_sec now)) \<and>
   reserved now (LbReservation_new cpIP port lbName' admintoken until' garbage2) = False"
  by (simp add: reserved_def reservationElapsed_def lb_run_isReserved lb_run_untilSeconds
        LbReservation_new_def)

theorem reserved_iff_witness:
  "reserved \<lparr>tv_sec = 1700000000, tv_nsec = 0\<rparr>
     (lb_run sample_toMs 0 sample_reservation [CallReserve (status_ok, sample_reply)]) \<and>
   \<not> reserved \<lparr>tv_sec = 1700003601, tv_nsec = 0\<rparr>
     (lb_run sample_toMs 0 sample_reservation [CallReserve (status_ok, sample_reply)]) \<and>
   \<not> reserved \<lparr>tv_sec = 1700000000, tv_nsec = 0\<rparr>
     (lb_run sample_toMs 0 sample_reservation [CallReserve (status_unavailable, sample_reply)])"
  using reserved_iff
          [where now = "\<lparr>tv_sec = 1700000000, tv_nsec = 0\<rparr>" and toMs = sample_toMs
             and garbage = 0 and cpIP = "''192.168.0.3''" and port = 18347
             and lbName' = "''test''" and admintoken = "''admin''" and until' = 1700003600
             and ?garbage2.0 = 0 and calls = "[CallReserve (status_ok, sample_reply)]"]
        reserved_iff
          [where now = "\<lparr>tv_sec = 1700003601, tv_nsec = 0\<rparr>" and toMs = sample_toMs
             and garbage = 0 and cpIP = "''192.168.0.3''" and port = 18347
             and lbName' = "''test''" and admintoken = "''admin''" and until' = 1700003600
             and ?garbage2.0 = 0 and calls = "[CallReserve (status_ok, sample_reply)]"]
        reserved_iff
          [where now = "\<lparr>tv_sec = 1700000000, tv_nsec = 0\<rparr>" and toMs = sample_toMs
             and garbage = 0 and cpIP = "''192.168.0.3''" and port = 18347
             and lbName' = "''test''" and admintoken = "''admin''" and until' = 1700003600
             and ?garbage2.0 = 0 and calls = "[CallReserve (status_unavailable, sample_reply)]"]
  by (simp add: sample_reservation_def [symmetric])

text \<open>
  C9. \<open>FreeLoadBalancer\<close> leaves the whole object as it was, whatever the status of
  the call, so \<open>reserved()\<close> reads the same before and after it. In particular, after a
  \<open>ReserveLoadBalancer\<close> with an OK status followed by a \<open>FreeLoadBalancer\<close> with an
  OK status, \<open>reserved()\<close> is still true at every clock reading whose seconds do not
  exceed the expiry instant.
\<close>

theorem FreeLoadBalancer_keeps_reserved:
  "fst (snd (FreeLoadBalancer stub r)) = r \<and>
   reserved now (fst (snd (FreeLoadBalancer stub r))) = reserved now r \<and>
   (ok (fst (stub1 (ReserveLoadBalancer_request (adminToken r) (lbName r) (untilSeconds r)))) \<and>
    fst (FreeLoadBalancer stub (fst (snd (ReserveLoadBalancer stub1 r)))) = 0 \<and>
    sint (tv_sec now) \<le> sint (untilSeconds r) \<longrightarrow>
    reserved now
      (fst (snd (FreeLoadBalancer stub (fst (snd (ReserveLoadBalancer stub1 r)))))))"
proof -
  have free: "fst (snd (FreeLoadBalancer stub x)) = x" for x
    by (simp add: FreeLoadBalancer_result)
  have "reserved now (fst (snd (ReserveLoadBalancer stub1 r)))"
    if "ok (fst (stub1 (ReserveLoadBalancer_request (adminToken r) (lbName r) (untilSeconds r))))"
      and "sint (tv_sec now) \<le> sint (untilSeconds r)"
  proof -
    obtain status reply where
      answer: "stub1 (ReserveLoadBalancer_request (adminToken r) (lbName r) (untilSeconds r))
                 = (status, reply)"
      by (cases "stub1 (ReserveLoadBalancer_request (adminToken r) (lbName r) (untilSeconds r))")
    with that(1) have "ok status" by simp
    with answer that(2) show ?thesis
      by (simp add: ReserveLoadBalancer_succeeded [where stub = stub1 and r = r, OF answer]
            reserved_def reservationElapsed_def)
  qed
  with free show ?thesis by simp
qed

theorem FreeLoadBalancer_keeps_reserved_witness:
  "ok (fst (status_ok, sample_reply)) \<and>
   fst (FreeLoadBalancer (\<lambda>request. status_ok)
          (fst (snd (ReserveLoadBalancer (\<lambda>request. (status_ok, sample_reply))
             sample_reservation)))) = 0 \<and>
   sint (tv_sec \<lparr>tv_sec = 1700000000, tv_nsec = 0\<rparr>) \<le> sint (untilSeconds sample_reservation) \<and>
   reserved \<lparr>tv_sec = 1700000000, tv_nsec = 0\<rparr>
     (fst (snd (FreeLoadBalancer (\<lambda>request. status_ok)
        (fst (snd (ReserveLoadBalancer (\<lambda>request. (status_ok, sample_reply))
           sample_reservation))))))"
proof -
  have h: "fst (FreeLoadBalancer (\<lambda>request. status_ok)
          (fst (snd (ReserveLoadBalancer (\<lambda>request. (status_ok, sample_reply))
             sample_reservation)))) = 0"
    by (simp add: FreeLoadBalancer_result)
  have u: "sint (untilSeconds sample_reservation) = 1700003600"
    by (simp add: sample_reservation_def LbReservation_new_def)
  show ?thesis
    using FreeLoadBalancer_keeps_reserved
            [where stub = "\<lambda>request. status_ok" and r = sample_reservation
               and ?stub1.0 = "\<lambda>request. (status_ok, sample_reply)"
               and now = "\<lparr>tv_sec = 1700000000, tv_nsec = 0\<rparr>"] h
    by (simp add: u)
qed

subsection \<open>Client Stats\<close>

lemma store_worker_eq:
  "store_worker toMs garbage stats_map w = stats_map(worker_name w \<mapsto> stats_of toMs w)"
proof (cases "stats_map (worker_name w)")
  case None
  then show ?thesis
    by (simp add: store_worker_def Let_def stats_of_def LbClientStatus_new_def)
next
  case (Some s)
  then show ?thesis
    by (cases s) (simp add: store_worker_def Let_def stats_of_def)
qed

lemma find_append_cases:
  "find P (xs @ ys) = (case find P xs of None \<Rightarrow> find P ys | Some x \<Rightarrow> Some x)"
  by (induction xs) simp_all

lemma store_workers_lookup:
  "store_workers toMs garbage stats_map ws n =
     (case last_named n ws of None \<Rightarrow> stats_map n | Some w \<Rightarrow> Some (stats_of toMs w))"
proof (induction ws arbitrary: stats_map)
  case Nil
  then show ?case by (simp add: last_named_def)
next
  case (Cons w ws)
  show ?case
  proof (cases "find (\<lambda>w. worker_name w = n) (rev ws)")
    case None
    then show ?thesis
      by (simp add: Cons.IH last_named_def find_append_cases store_worker_eq)
  next
    case (Some v)
    then show ?thesis
      by (simp add: Cons.IH last_named_def find_append_cases)
  qed
qed

lemma last_named_None_iff: "last_named n ws = None \<longleftrightarrow> n \<notin> worker_name ` set ws"
  by (auto simp add: last_named_def find_None_iff)

lemma dom_store_workers:
  "dom (store_workers toMs garbage stats_map ws) = dom stats_map \<union> worker_name ` set ws"
proof (rule set_eqI)
  fix n
  show "n \<in> dom (store_workers toMs garbage stats_map ws) \<longleftrightarrow>
        n \<in> dom stats_map \<union> worker_name ` set ws"
  proof (cases "last_named n ws")
    case None
    then show ?thesis
      using last_named_None_iff [of n ws] by (simp add: dom_def store_workers_lookup)
  next
    case (Some w)
    then show ?thesis
      using last_named_None_iff [of n ws] by (simp add: dom_def store_workers_lookup)
  qed
qed

lemma store_workers_again:
  "store_workers toMs garbage2 (store_workers toMs garbage stats_map ws) ws =
   store_workers toMs garbage stats_map ws"
proof (rule ext)
  fix n
  show "store_workers toMs garbage2 (store_workers toMs garbage stats_map ws) ws n =
        store_workers toMs garbage stats_map ws n"
    by (cases "last_named n ws") (simp_all add: store_workers_lookup)
qed

lemma LoadBalancerStatus_static_succeeded:
  "ok (fst (stub \<lparr>status_token = adminToken', status_lbid = lbId'\<rparr>)) \<Longrightarrow>
   LoadBalancerStatus_static toMs garbage stub cpIP port lbId' adminToken' stats_map =
     (0,
      store_workers toMs garbage stats_map
        (workers (snd (stub \<lparr>status_token = adminToken', status_lbid = lbId'\<rparr>))),
      [Rpc (cpTarget cpIP port)
         (LoadBalancerStatusCall \<lparr>status_token = adminToken', status_lbid = lbId'\<rparr>)])"
  by (cases "stub \<lparr>status_token = adminToken', status_lbid = lbId'\<rparr>")
     (simp add: LoadBalancerStatus_static_def Let_def)

text \<open>
  C4. After a \<open>LoadBalancerStatus\<close> call with an OK status (member function, and the
  static function run on the same map), the Client Stats entry at every name that occurs
  in the reply is the record made of the five values of the last worker of the reply with
  that name: its fill percent, control signal, assigned slots and reported timestamp, and
  the milliseconds computed from that timestamp; nothing of the entry that was there
  before, or of the uninitialised field of a newly created entry, is left. The entry at
  every other name is what it was, the keys afterwards are the keys before together with
  the names of the reply, and a second successful call whose reply lists the same workers
  leaves the map as the first call left it.
\<close>

theorem LoadBalancerStatus_overwrites:
  assumes "ok (fst (stub \<lparr>status_token = adminToken r, status_lbid = lbId r\<rparr>))"
  shows "let reply = snd (stub \<lparr>status_token = adminToken r, status_lbid = lbId r\<rparr>);
             r' = fst (snd (LoadBalancerStatus toMs garbage stub r))
         in fst (LoadBalancerStatus toMs garbage stub r) = 0 \<and>
            (\<forall>n. clientStats r' n =
               (case last_named n (workers reply) of
                  None \<Rightarrow> clientStats r n
                | Some w \<Rightarrow> Some (stats_of toMs w))) \<and>
            dom (clientStats r') = dom (clientStats r) \<union> worker_name ` set (workers reply) \<and>
            fst (snd (LoadBalancerStatus_static toMs garbage stub cpIP port (lbId r) (adminToken r)
                        (clientStats r))) = clientStats r' \<and>
            (\<forall>stub2 garbage2.
               ok (fst (stub2 \<lparr>status_token = adminToken r', status_lbid = lbId r'\<rparr>)) \<and>
               workers (snd (stub2 \<lparr>status_token = adminToken r', status_lbid = lbId r'\<rparr>))
                 = workers reply \<longrightarrow>
               clientStats (fst (snd (LoadBalancerStatus toMs garbage2 stub2 r'))) = clientStats r')"
proof -
  let ?reply = "snd (stub \<lparr>status_token = adminToken r, status_lbid = lbId r\<rparr>)"
  let ?r' = "fst (snd (LoadBalancerStatus toMs garbage stub r))"
  have r': "?r' = r\<lparr>clientStats := store_workers toMs garbage (clientStats r) (workers ?reply)\<rparr>"
    using assms by (simp add: LoadBalancerStatus_succeeded)
  have code: "fst (LoadBalancerStatus toMs garbage stub r) = 0"
    using assms by (simp add: LoadBalancerStatus_succeeded)
  have entries: "clientStats ?r' n =
      (case last_named n (workers ?reply) of
         None \<Rightarrow> clientStats r n
       | Some w \<Rightarrow> Some (stats_of toMs w))" for n
    by (simp add: r' store_workers_lookup)
  have keys: "dom (clientStats ?r') = dom (clientStats r) \<union> worker_name ` set (workers ?reply)"
    by (simp add: r' dom_store_workers)
  have static: "fst (snd (LoadBalancerStatus_static toMs garbage stub cpIP port (lbId r)
                    (adminToken r) (clientStats r))) = clientStats ?r'"
    using assms by (simp add: LoadBalancerStatus_static_succeeded r')
  have again: "clientStats (fst (snd (LoadBalancerStatus toMs garbage2 stub2 ?r'))) = clientStats ?r'"
    if "ok (fst (stub2 \<lparr>status_token = adminToken ?r', status_lbid = lbId ?r'\<rparr>))"
      and "workers (snd (stub2 \<lparr>status_token = adminToken ?r', status_lbid = lbId ?r'\<rparr>))
             = workers ?reply"
    for stub2 garbage2
  proof -
    have "clientStats (fst (snd (LoadBalancerStatus toMs garbage2 stub2 ?r'))) =
          store_workers toMs garbage2 (clientStats ?r') (workers ?reply)"
      using that by (simp add: LoadBalancerStatus_succeeded)
    also have "\<dots> = clientStats ?r'"
      by (simp add: r' store_workers_again)
    finally show ?thesis .
  qed
  show ?thesis
    unfolding Let_def using code entries keys static again by blast
qed

theorem LoadBalancerStatus_overwrites_witness:
  "ok (fst (status_ok, \<lparr>workers = [sample_worker]\<rparr>)) \<and>
   fst (LoadBalancerStatus sample_toMs 7 (\<lambda>request. (status_ok, \<lparr>workers = [sample_worker]\<rparr>))
          sample_reservation) = 0 \<and>
   clientStats
     (fst (snd (LoadBalancerStatus sample_toMs 7
        (\<lambda>request. (status_ok, \<lparr>workers = [sample_worker]\<rparr>)) sample_reservation))) ''backend1''
     = Some \<lparr>fillPercent = 0x3F000000, controlSignal = 0, slotsAssigned = 128,
             lastUpdated = \<lparr>seconds = 1700000000, nanos = 250000000\<rparr>,
             updateTime = 1700000000000\<rparr> \<and>
   clientStats
     (fst (snd (LoadBalancerStatus sample_toMs 7
        (\<lambda>request. (status_ok, \<lparr>workers = [sample_worker]\<rparr>)) sample_reservation))) ''backend2''
     = None"
proof -
  have named: "last_named ''backend1'' [sample_worker] = Some sample_worker"
    and unnamed: "last_named ''backend2'' [sample_worker] = None"
    by (simp_all add: last_named_def sample_worker_def)
  have stats: "stats_of sample_toMs sample_worker =
      \<lparr>fillPercent = 0x3F000000, controlSignal = 0, slotsAssigned = 128,
       lastUpdated = \<lparr>seconds = 1700000000, nanos = 250000000\<rparr>,
       updateTime = 1700000000000\<rparr>"
    by (simp add: stats_of_def sample_worker_def sample_toMs_def)
  have empty: "clientStats sample_reservation = Map.empty"
    by (simp add: sample_reservation_def LbReservation_new_def)
  show ?thesis
    using LoadBalancerStatus_overwrites
            [where stub = "\<lambda>request. (status_ok, \<lparr>workers = [sample_worker]\<rparr>)"
               and r = sample_reservation and toMs = sample_toMs and garbage = 7]
    by (simp add: Let_def named unnamed stats empty)
qed

section \<open>Properties of the static URI-producing functions\<close>

lemma ReserveLoadBalancer_static_result:
  assumes "stub (ReserveLoadBalancer_request adminToken' lbName' untilSeconds') = (status, reply)"
    and "ipAddr_of getaddrinfo cpIP useIPv6 = (ipAddr, looked_up)"
  shows "ReserveLoadBalancer_static stub getaddrinfo cpIP port lbName' adminToken' untilSeconds'
           useIPv6 =
     (if \<not> ok status then sprintf_url (''error = '' @ c_str (error_message status))
      else sprintf_url
             (reserve_uri (reply_token reply) ipAddr port (reply_lbid reply)
                (if useIPv6 then reply_dataipv6address reply else reply_dataipv4address reply)
                19522
                (if length (reply_syncipaddress reply) < 16 then ipAddr
                 else reply_syncipaddress reply)
                (reply_syncudpport reply)),
      Rpc (cpTarget cpIP port)
        (ReserveLoadBalancerCall (ReserveLoadBalancer_request adminToken' lbName' untilSeconds'))
      # looked_up)"
  using assms by (auto simp add: ReserveLoadBalancer_static_def Let_def)

lemma GetLbUri_result:
  assumes "stub \<lparr>get_token = adminToken', get_lbid = lbId'\<rparr> = (status, reply)"
    and "ipAddr_of getaddrinfo cpIP useIPv6 = (ipAddr, looked_up)"
  shows "GetLbUri stub getaddrinfo cpIP port lbId' adminToken' useIPv6 =
     (if \<not> ok status then sprintf_url (''error = '' @ c_str (error_message status))
      else sprintf_url
             (lookup_uri ipAddr port (reply_lbid reply)
                (if useIPv6 then reply_dataipv6address reply else reply_dataipv4address reply)
                19522
                (if length (reply_syncipaddress reply) < 16 then ipAddr
                 else reply_syncipaddress reply)
                (reply_syncudpport reply)),
      Rpc (cpTarget cpIP port) (GetLoadBalancerCall \<lparr>get_token = adminToken', get_lbid = lbId'\<rparr>)
      # looked_up)"
  using assms by (auto simp add: GetLbUri_def Let_def)

text \<open>
  What the two \<open>ReserveLoadBalancer\<close> functions do when the status of the call is not
  OK. The member function returns 1 and leaves the object as it was. The static function
  formats \<^verbatim>\<open>error = \<close> and the message (up to its first NUL) into its 256-byte array:
  that is the returned string when the message has at most 247 bytes, and an overrun of
  the array otherwise.
\<close>

lemma ReserveLoadBalancer_failure:
  "(\<not> ok (fst (stub (ReserveLoadBalancer_request (adminToken r) (lbName r) (untilSeconds r)))) \<longrightarrow>
      fst (ReserveLoadBalancer stub r) = 1 \<and> fst (snd (ReserveLoadBalancer stub r)) = r) \<and>
   (\<not> ok (fst (stub2 (ReserveLoadBalancer_request adminToken' lbName' untilSeconds'))) \<longrightarrow>
      fst (ReserveLoadBalancer_static stub2 getaddrinfo cpIP port lbName' adminToken' untilSeconds'
             useIPv6) =
        (if length (c_str (error_message
               (fst (stub2 (ReserveLoadBalancer_request adminToken' lbName' untilSeconds'))))) < 248
         then Inr (''error = '' @ c_str (error_message
               (fst (stub2 (ReserveLoadBalancer_request adminToken' lbName' untilSeconds')))))
         else Inl BufferOverrun))"
proof -
  obtain status reply where
    answer: "stub2 (ReserveLoadBalancer_request adminToken' lbName' untilSeconds') = (status, reply)"
    by (cases "stub2 (ReserveLoadBalancer_request adminToken' lbName' untilSeconds')")
  obtain ipAddr looked_up where
    addr: "ipAddr_of getaddrinfo cpIP useIPv6 = (ipAddr, looked_up)"
    by (cases "ipAddr_of getaddrinfo cpIP useIPv6")
  show ?thesis
    by (simp add: ReserveLoadBalancer_failed ReserveLoadBalancer_static_result [where stub = stub2, OF answer addr]
          answer sprintf_url_def)
qed

text \<open>
  C5 at a failing input: the static function called for a server whose failure status
  carries a message of 248 bytes. The formatted text has 256 bytes and, with its
  terminating NUL, does not fit the array \<^verbatim>\<open>url\<close>: no string \<^verbatim>\<open>error = ...\<close> is
  returned.
\<close>

theorem ReserveLoadBalancer_static_long_message:
  "length (error_message status_long_message) = 248 \<and>
   \<not> ok status_long_message \<and>
   fst (ReserveLoadBalancer_static (\<lambda>request. (status_long_message, empty_reply))
          (\<lambda>host. None) ''192.168.0.3'' 18347 ''test'' ''admin'' 1700003600 False)
     = Inl BufferOverrun"
proof -
  have msg: "c_str (error_message status_long_message) = replicate 248 CHR ''x''"
    by (simp add: status_long_message_def c_str_def takeWhile_eq_all_conv)
  have bad: "\<not> ok (fst ((\<lambda>request. (status_long_message, empty_reply))
                (ReserveLoadBalancer_request ''admin'' ''test'' 1700003600)))"
    by (simp add: ok_def status_long_message_def)
  show ?thesis
    using ReserveLoadBalancer_failure
            [where ?stub2.0 = "\<lambda>request. (status_long_message, empty_reply)"
               and adminToken' = "''admin''" and lbName' = "''test''"
               and untilSeconds' = 1700003600 and getaddrinfo = "\<lambda>host. None"
               and cpIP = "''192.168.0.3''" and port = 18347 and ?useIPv6.0 = False]
          bad
    by (simp add: msg) (simp add: status_long_message_def ok_def)
qed

section \<open>The address patterns\<close>

subsection \<open>The matcher and the language of a pattern\<close>

lemma residuals_lang:
  "t \<in> set (residuals r s) \<longleftrightarrow> (\<exists>u. u \<in> lang r \<and> s = u @ t)"
proof (induction r arbitrary: s t)
  case (Class ranges)
  show ?case by (cases s) auto
next
  case Empty
  show ?case by auto
next
  case (Alt a b)
  then show ?case by auto
next
  case (Seq a b)
  have "t \<in> set (residuals (Seq a b) s) \<longleftrightarrow>
        (\<exists>m. m \<in> set (residuals a s) \<and> t \<in> set (residuals b m))"
    by auto
  also have "\<dots> \<longleftrightarrow> (\<exists>m u v. u \<in> lang a \<and> s = u @ m \<and> v \<in> lang b \<and> m = v @ t)"
    by (simp add: Seq.IH) blast
  also have "\<dots> \<longleftrightarrow> (\<exists>w. w \<in> lang (Seq a b) \<and> s = w @ t)"
  proof
    assume "\<exists>m u v. u \<in> lang a \<and> s = u @ m \<and> v \<in> lang b \<and> m = v @ t"
    then obtain u v where "u \<in> lang a" "v \<in> lang b" "s = (u @ v) @ t"
      by auto
    then show "\<exists>w. w \<in> lang (Seq a b) \<and> s = w @ t"
      by (intro exI [of _ "u @ v"]) auto
  next
    assume "\<exists>w. w \<in> lang (Seq a b) \<and> s = w @ t"
    then obtain u v where "u \<in> lang a" "v \<in> lang b" "s = u @ (v @ t)"
      by auto
    then show "\<exists>m u v. u \<in> lang a \<and> s = u @ m \<and> v \<in> lang b \<and> m = v @ t"
      by blast
  qed
  finally show ?case .
qed

lemma regex_match_lang: "regex_match s r \<longleftrightarrow> s \<in> lang r"
  by (simp add: regex_match_def residuals_lang)

lemma in_class_one [simp]:
  "in_class c [(lo, hi)] \<longleftrightarrow> (of_char lo :: nat) \<le> of_char c \<and> (of_char c :: nat) \<le> of_char hi"
  by (simp add: in_class_def)

lemma in_class_more [simp]:
  "in_class c ((lo, hi) # r # rs) \<longleftrightarrow>
     ((of_char lo :: nat) \<le> of_char c \<and> (of_char c :: nat) \<le> of_char hi) \<or> in_class c (r # rs)"
  by (simp add: in_class_def)

lemma in_class_same: "in_class d [(c, c)] \<longleftrightarrow> d = c"
proof -
  have "in_class d [(c, c)] \<longleftrightarrow> (of_char d :: nat) = of_char c"
    by auto
  then show ?thesis by simp
qed

lemma lang_Lit: "lang (Lit c) = {[c]}"
  by (simp add: Lit_def in_class_same del: in_class_one)

lemma lang_Opt: "lang (Opt r) = insert [] (lang r)"
  by (auto simp add: Opt_def)

lemma join_Cons: "ps \<noteq> [] \<Longrightarrow> join sep (p # ps) = p @ sep @ join sep ps"
  by (cases ps) simp_all

lemma lang_SeqI: "u \<in> lang a \<Longrightarrow> v \<in> lang b \<Longrightarrow> u @ v \<in> lang (Seq a b)"
  by auto

lemma lang_separated:
  "s \<in> lang (Seq (Times n (Seq g (Lit c))) g) \<longleftrightarrow>
     (\<exists>parts. length parts = Suc n \<and> list_all (\<lambda>p. p \<in> lang g) parts \<and> s = join [c] parts)"
proof (induction n arbitrary: s)
  case 0
  show ?case
  proof
    assume "s \<in> lang (Seq (Times 0 (Seq g (Lit c))) g)"
    then have "s \<in> lang g" by simp
    then show "\<exists>parts. length parts = Suc 0 \<and> list_all (\<lambda>p. p \<in> lang g) parts \<and> s = join [c] parts"
      by (intro exI [of _ "[s]"]) simp
  next
    assume "\<exists>parts. length parts = Suc 0 \<and> list_all (\<lambda>p. p \<in> lang g) parts \<and> s = join [c] parts"
    then obtain parts where p: "length parts = Suc 0" "list_all (\<lambda>p. p \<in> lang g) parts" "s = join [c] parts"
      by blast
    from p(1) obtain x where "parts = [x]"
      by (cases parts) auto
    with p show "s \<in> lang (Seq (Times 0 (Seq g (Lit c))) g)" by simp
  qed
next
  case (Suc n)
  show ?case
  proof
    assume "s \<in> lang (Seq (Times (Suc n) (Seq g (Lit c))) g)"
    then obtain u w v where u: "u \<in> lang g" and w: "w \<in> lang (Times n (Seq g (Lit c)))"
      and v: "v \<in> lang g" and s: "s = u @ [c] @ w @ v"
      by (auto simp add: lang_Lit)
    have "w @ v \<in> lang (Seq (Times n (Seq g (Lit c))) g)"
      using w v by auto
    then obtain parts where p: "length parts = Suc n" "list_all (\<lambda>p. p \<in> lang g) parts"
      "w @ v = join [c] parts"
      using Suc.IH by blast
    then have "parts \<noteq> []" by auto
    then have "s = join [c] (u # parts)"
      using s p(3) by (simp add: join_Cons)
    with p u show "\<exists>parts. length parts = Suc (Suc n) \<and> list_all (\<lambda>p. p \<in> lang g) parts \<and> s = join [c] parts"
      by (intro exI [of _ "u # parts"]) simp
  next
    assume "\<exists>parts. length parts = Suc (Suc n) \<and> list_all (\<lambda>p. p \<in> lang g) parts \<and> s = join [c] parts"
    then obtain parts where p: "length parts = Suc (Suc n)" "list_all (\<lambda>p. p \<in> lang g) parts" "s = join [c] parts"
      by blast
    from p(1) obtain u rest where parts: "parts = u # rest" and rest: "length rest = Suc n"
      by (cases parts) auto
    then have ne: "rest \<noteq> []" by auto
    have "join [c] rest \<in> lang (Seq (Times n (Seq g (Lit c))) g)"
      using Suc.IH [of "join [c] rest"] rest p(2) parts by auto
    then obtain w v where w: "w \<in> lang (Times n (Seq g (Lit c)))" and v: "v \<in> lang g"
      and j: "join [c] rest = w @ v"
      by auto
    have u: "u \<in> lang g" using p(2) parts by simp
    have "s = ((u @ [c]) @ w) @ v"
      using p(3) parts ne j by (simp add: join_Cons)
    moreover have "u @ [c] \<in> lang (Seq g (Lit c))"
      using u by (intro lang_SeqI) (simp_all add: lang_Lit)
    then have "(u @ [c]) @ w \<in> lang (Times (Suc n) (Seq g (Lit c)))"
      using w by (simp only: Times.simps) (rule lang_SeqI)
    then have "((u @ [c]) @ w) @ v \<in> lang (Seq (Times (Suc n) (Seq g (Lit c))) g)"
      using v by (rule lang_SeqI)
    ultimately show "s \<in> lang (Seq (Times (Suc n) (Seq g (Lit c))) g)"
      by simp
  qed
qed


lemma Nil_in_Class [simp]: "[] \<in> lang (Class rs) \<longleftrightarrow> False"
  by simp

lemma Cons_in_Class [simp]: "c # t \<in> lang (Class rs) \<longleftrightarrow> t = [] \<and> in_class c rs"
  by auto

lemma Nil_in_Seq_Class: "[] \<in> lang (Seq (Class rs) r) \<longleftrightarrow> False"
  by simp

lemma Cons_in_Seq_Class:
  "c # t \<in> lang (Seq (Class rs) r) \<longleftrightarrow> in_class c rs \<and> t \<in> lang r"
proof
  assume "c # t \<in> lang (Seq (Class rs) r)"
  then show "in_class c rs \<and> t \<in> lang r" by auto
next
  assume "in_class c rs \<and> t \<in> lang r"
  then have "[c] @ t \<in> lang (Seq (Class rs) r)"
    by (intro lang_SeqI) simp_all
  then show "c # t \<in> lang (Seq (Class rs) r)" by simp
qed

lemma in_Seq_Opt: "s \<in> lang (Seq (Opt a) r) \<longleftrightarrow> s \<in> lang r \<or> s \<in> lang (Seq a r)"
  by (auto simp add: Opt_def)

lemma in_Opt: "s \<in> lang (Opt a) \<longleftrightarrow> s = [] \<or> s \<in> lang a"
  by (auto simp add: Opt_def)

lemmas shape_simps = Nil_in_Seq_Class Cons_in_Seq_Class in_Seq_Opt in_Opt

lemma octet_Nil: "[] \<in> lang octet_regex \<longleftrightarrow> octet_text []"
  unfolding octet_regex_def Lit_def Range_def octet_text_def
  by (simp add: shape_simps del: lang.simps(4))

lemma octet_1: "[a] \<in> lang octet_regex \<longleftrightarrow> octet_text [a]"
  unfolding octet_regex_def Lit_def Range_def octet_text_def is_digit_def decimal_def
  by (simp add: shape_simps del: lang.simps(4)) arith

lemma octet_2: "[a, b] \<in> lang octet_regex \<longleftrightarrow> octet_text [a, b]"
  unfolding octet_regex_def Lit_def Range_def octet_text_def is_digit_def decimal_def
  by (simp add: shape_simps del: lang.simps(4)) arith

lemma octet_3: "[a, b, c] \<in> lang octet_regex \<longleftrightarrow> octet_text [a, b, c]"
  unfolding octet_regex_def Lit_def Range_def octet_text_def is_digit_def decimal_def
  by (simp add: shape_simps del: lang.simps(4)) arith

lemma octet_more: "a # b # c # d # t \<in> lang octet_regex \<longleftrightarrow> octet_text (a # b # c # d # t)"
  unfolding octet_regex_def Lit_def Range_def octet_text_def
  by (simp add: shape_simps del: lang.simps(4))

lemma lang_octet_regex: "s \<in> lang octet_regex \<longleftrightarrow> octet_text s"
proof (cases s)
  case Nil
  then show ?thesis by (simp only: octet_Nil)
next
  case s1: (Cons a t1)
  show ?thesis
  proof (cases t1)
    case Nil
    with s1 show ?thesis by (simp only: octet_1)
  next
    case s2: (Cons b t2)
    show ?thesis
    proof (cases t2)
      case Nil
      with s1 s2 show ?thesis by (simp only: octet_2)
    next
      case s3: (Cons c t3)
      show ?thesis
      proof (cases t3)
        case Nil
        with s1 s2 s3 show ?thesis by (simp only: octet_3)
      next
        case (Cons d t4)
        with s1 s2 s3 show ?thesis by (simp only: octet_more)
      qed
    qed
  qed
qed

lemma is_ipv4_iff: "is_ipv4 s \<longleftrightarrow> dotted_quad s"
proof -
  have "list_all (\<lambda>p. p \<in> lang octet_regex) parts = list_all octet_text parts" for parts
    by (simp add: lang_octet_regex)
  then show ?thesis
    by (simp add: is_ipv4_def regex_match_lang ipv4_regex_def dotted_quad_def
          lang_separated [of s "Suc (Suc (Suc 0))" octet_regex "CHR ''.''"]
          numeral_3_eq_3 eval_nat_numeral del: lang.simps Times.simps)
qed

lemma in_Empty: "s \<in> lang Empty \<longleftrightarrow> s = []"
  by simp

lemma lang_Times_Opt_Class:
  "s \<in> lang (Times k (Opt (Class rs))) \<longleftrightarrow> length s \<le> k \<and> list_all (\<lambda>c. in_class c rs) s"
proof (induction k arbitrary: s)
  case 0
  show ?case by auto
next
  case (Suc k)
  show ?case
    by (cases s) (auto simp add: in_Seq_Opt Cons_in_Seq_Class Nil_in_Seq_Class Suc.IH
          simp del: lang.simps)
qed

lemma lang_hex_group: "s \<in> lang (Between 1 4 hex_class) \<longleftrightarrow> hex_group s"
proof -
  have digit: "in_class c [(CHR ''0'', CHR ''9''), (CHR ''a'', CHR ''f''), (CHR ''A'', CHR ''F'')]
      \<longleftrightarrow> is_hex_digit c" for c
    by (simp add: is_hex_digit_def)
  have "s \<in> lang (Between 1 4 hex_class) \<longleftrightarrow>
        (\<exists>u v. u \<in> lang hex_class \<and> v \<in> lang (Times 3 (Opt hex_class)) \<and> s = u @ v)"
    by (auto simp add: Between_def)
  also have "\<dots> \<longleftrightarrow> (\<exists>c v. is_hex_digit c \<and> length v \<le> 3 \<and> list_all is_hex_digit v \<and> s = c # v)"
    unfolding hex_class_def lang_Times_Opt_Class
    by (auto simp add: digit simp del: in_class_more in_class_one)
  also have "\<dots> \<longleftrightarrow> hex_group s"
    by (cases s) (auto simp add: hex_group_def)
  finally show ?thesis .
qed

lemma is_ipv6_iff: "is_ipv6 s \<longleftrightarrow> colon_groups s"
proof -
  have "is_ipv6 s \<longleftrightarrow>
        (\<exists>parts. length parts = Suc 7 \<and>
           list_all (\<lambda>p. p \<in> lang (Between 1 4 hex_class)) parts \<and> s = join [CHR '':''] parts)"
    by (simp only: is_ipv6_def regex_match_lang ipv6_regex_def lang_separated)
  also have "\<dots> \<longleftrightarrow>
        (\<exists>parts. length parts = Suc 7 \<and> list_all hex_group parts \<and> s = join [CHR '':''] parts)"
    by (simp only: lang_hex_group)
  also have "\<dots> \<longleftrightarrow> colon_groups s"
    by (simp add: colon_groups_def)
  finally show ?thesis .
qed

subsection \<open>Size and characters of an address literal\<close>

lemma length_join:
  "parts \<noteq> [] \<Longrightarrow> list_all (\<lambda>p. length p \<le> k) parts \<Longrightarrow>
   length (join sep parts) + length sep \<le> length parts * (k + length sep)"
  by (induction sep parts rule: join.induct) auto

lemma set_join:
  "c \<in> set (join sep parts) \<Longrightarrow> c \<in> set sep \<or> (\<exists>p \<in> set parts. c \<in> set p)"
  by (induction sep parts rule: join.induct) auto

lemma list_all_weaken: "list_all P xs \<Longrightarrow> (\<And>x. P x \<Longrightarrow> Q x) \<Longrightarrow> list_all Q xs"
  by (induction xs) auto

lemma is_digit_not_NUL: "is_digit c \<Longrightarrow> c \<noteq> CHR 0x00"
  by (auto simp add: is_digit_def)

lemma is_hex_digit_not_NUL: "is_hex_digit c \<Longrightarrow> c \<noteq> CHR 0x00"
  by (auto simp add: is_hex_digit_def)

lemma is_ipv4_shape:
  assumes "is_ipv4 s"
  shows "length s < 16" and "CHR 0x00 \<notin> set s"
proof -
  from assms obtain parts where parts: "length parts = 4" "list_all octet_text parts"
    "s = join ''.'' parts"
    by (auto simp add: is_ipv4_iff dotted_quad_def)
  from parts(1) have ne: "parts \<noteq> []" by auto
  have "list_all (\<lambda>p. length p \<le> 3) parts"
    using parts(2) by (rule list_all_weaken) (simp add: octet_text_def)
  from length_join [OF ne this, of "''.''"] show "length s < 16"
    by (simp add: parts)
  show "CHR 0x00 \<notin> set s"
  proof
    assume "CHR 0x00 \<in> set s"
    then have "CHR 0x00 \<in> set ''.'' \<or> (\<exists>p \<in> set parts. CHR 0x00 \<in> set p)"
      unfolding parts(3) by (rule set_join)
    then obtain p where p: "p \<in> set parts" "CHR 0x00 \<in> set p"
      by auto
    from p(1) parts(2) have "list_all is_digit p"
      by (auto simp add: list_all_iff octet_text_def)
    with p(2) show False
      by (auto simp add: list_all_iff dest: is_digit_not_NUL)
  qed
qed

lemma is_ipv6_shape:
  assumes "is_ipv6 s"
  shows "length s < 40" and "CHR 0x00 \<notin> set s"
proof -
  from assms obtain parts where parts: "length parts = 8" "list_all hex_group parts"
    "s = join '':'' parts"
    by (auto simp add: is_ipv6_iff colon_groups_def)
  from parts(1) have ne: "parts \<noteq> []" by auto
  have "list_all (\<lambda>p. length p \<le> 4) parts"
    using parts(2) by (rule list_all_weaken) (simp add: hex_group_def)
  from length_join [OF ne this, of "'':''"] show "length s < 40"
    by (simp add: parts)
  show "CHR 0x00 \<notin> set s"
  proof
    assume "CHR 0x00 \<in> set s"
    then have "CHR 0x00 \<in> set '':'' \<or> (\<exists>p \<in> set parts. CHR 0x00 \<in> set p)"
      unfolding parts(3) by (rule set_join)
    then obtain p where p: "p \<in> set parts" "CHR 0x00 \<in> set p"
      by auto
    from p(1) parts(2) have "list_all is_hex_digit p"
      by (auto simp add: list_all_iff hex_group_def)
    with p(2) show False
      by (auto simp add: list_all_iff dest: is_hex_digit_not_NUL)
  qed
qed

lemma c_str_without_NUL: "CHR 0x00 \<notin> set s \<Longrightarrow> c_str s = s"
  by (auto simp add: c_str_def takeWhile_eq_all_conv)

lemma c_str_literal: "is_ipv4 s \<or> is_ipv6 s \<Longrightarrow> c_str s = s"
  using is_ipv4_shape(2) is_ipv6_shape(2) c_str_without_NUL by blast

lemma length_to_string: "n < 10 ^ Suc k \<Longrightarrow> length (to_string n) \<le> Suc k"
proof (induction k arbitrary: n)
  case 0
  then show ?case by (simp add: to_string.simps)
next
  case (Suc k)
  show ?case
  proof (cases "n < 10")
    case True
    then show ?thesis by (simp add: to_string.simps)
  next
    case False
    from Suc.prems have "n div 10 < 10 ^ Suc k"
      by (simp add: less_mult_imp_div_less mult.commute)
    then have "length (to_string (n div 10)) \<le> Suc k"
      by (rule Suc.IH)
    with False show ?thesis
      by (subst to_string.simps) simp
  qed
qed

lemma length_to_string_port: "length (to_string (unat (port :: 16 word))) \<le> 5"
proof -
  have "unat port < 2 ^ 16"
    using unsigned_less [of port, where ?'a = nat] by simp
  then have "unat port < 10 ^ Suc 4" by simp
  then show ?thesis
    using length_to_string [of "unat port" 4] by simp
qed

subsection \<open>The resolver loop\<close>

lemma resolve_loop_eq:
  "resolve_loop result (ipv4, ipv6) =
     (last_matching is_ipv4 ipv4 result, last_matching is_ipv6 ipv6 result)"
proof (induction result arbitrary: ipv4 ipv6)
  case Nil
  show ?case by (simp add: last_matching_def)
next
  case (Cons ipstr rest)
  show ?case
    by (simp add: Cons.IH last_matching_def find_append_cases split: option.split)
qed

lemma ipAddr_of_literal:
  "is_ipv4 cpIP \<or> is_ipv6 cpIP \<Longrightarrow> ipAddr_of getaddrinfo cpIP useIPv6 = (cpIP, [])"
  by (simp add: ipAddr_of_def)

lemma ipAddr_of_name:
  "\<not> (is_ipv4 cpIP \<or> is_ipv6 cpIP) \<Longrightarrow>
   ipAddr_of getaddrinfo cpIP useIPv6 =
     (let found = (case getaddrinfo (c_str cpIP) of None \<Rightarrow> [] | Some result \<Rightarrow> result);
          ipV4 = last_matching is_ipv4 [] found;
          ipV6 = last_matching is_ipv6 [] found
      in if useIPv6 \<and> ipV6 \<noteq> [] then ipV6 else if ipV4 \<noteq> [] then ipV4 else cpIP,
      [Getaddrinfo (c_str cpIP)])"
  by (cases "getaddrinfo (c_str cpIP)")
     (simp_all add: ipAddr_of_def resolve_host_def resolve_loop_eq Let_def last_matching_def)

section \<open>The control-plane address and the sync address in the URIs\<close>

lemma events_ReserveLoadBalancer_static:
  "snd (ReserveLoadBalancer_static stub getaddrinfo cpIP port lbName' adminToken' untilSeconds'
          useIPv6) =
     Rpc (cpTarget cpIP port)
       (ReserveLoadBalancerCall (ReserveLoadBalancer_request adminToken' lbName' untilSeconds'))
     # snd (ipAddr_of getaddrinfo cpIP useIPv6)"
proof -
  obtain status reply where
    answer: "stub (ReserveLoadBalancer_request adminToken' lbName' untilSeconds') = (status, reply)"
    by (cases "stub (ReserveLoadBalancer_request adminToken' lbName' untilSeconds')")
  obtain ipAddr looked_up where
    addr: "ipAddr_of getaddrinfo cpIP useIPv6 = (ipAddr, looked_up)"
    by (cases "ipAddr_of getaddrinfo cpIP useIPv6")
  show ?thesis
    by (simp add: ReserveLoadBalancer_static_result [where stub = stub, OF answer addr] addr)
qed

lemma events_GetLbUri:
  "snd (GetLbUri stub getaddrinfo cpIP port lbId' adminToken' useIPv6) =
     Rpc (cpTarget cpIP port) (GetLoadBalancerCall \<lparr>get_token = adminToken', get_lbid = lbId'\<rparr>)
     # snd (ipAddr_of getaddrinfo cpIP useIPv6)"
proof -
  obtain status reply where
    answer: "stub \<lparr>get_token = adminToken', get_lbid = lbId'\<rparr> = (status, reply)"
    by (cases "stub \<lparr>get_token = adminToken', get_lbid = lbId'\<rparr>")
  obtain ipAddr looked_up where
    addr: "ipAddr_of getaddrinfo cpIP useIPv6 = (ipAddr, looked_up)"
    by (cases "ipAddr_of getaddrinfo cpIP useIPv6")
  show ?thesis
    by (simp add: GetLbUri_result [where stub = stub, OF answer addr] addr)
qed

lemma uri_ReserveLoadBalancer_static:
  assumes "stub (ReserveLoadBalancer_request adminToken' lbName' untilSeconds') = (status, reply)"
    and "ok status"
  shows "fst (ReserveLoadBalancer_static stub getaddrinfo cpIP port lbName' adminToken'
                untilSeconds' useIPv6) =
     sprintf_url
       (reserve_uri (reply_token reply) (fst (ipAddr_of getaddrinfo cpIP useIPv6)) port
          (reply_lbid reply)
          (if useIPv6 then reply_dataipv6address reply else reply_dataipv4address reply)
          19522
          (if length (reply_syncipaddress reply) < 16
           then fst (ipAddr_of getaddrinfo cpIP useIPv6)
           else reply_syncipaddress reply)
          (reply_syncudpport reply))"
proof -
  obtain ipAddr looked_up where
    addr: "ipAddr_of getaddrinfo cpIP useIPv6 = (ipAddr, looked_up)"
    by (cases "ipAddr_of getaddrinfo cpIP useIPv6")
  show ?thesis
    using assms(2)
    by (simp add: ReserveLoadBalancer_static_result [where stub = stub, OF assms(1) addr] addr)
qed

lemma uri_GetLbUri:
  assumes "stub \<lparr>get_token = adminToken', get_lbid = lbId'\<rparr> = (status, reply)"
    and "ok status"
  shows "fst (GetLbUri stub getaddrinfo cpIP port lbId' adminToken' useIPv6) =
     sprintf_url
       (lookup_uri (fst (ipAddr_of getaddrinfo cpIP useIPv6)) port (reply_lbid reply)
          (if useIPv6 then reply_dataipv6address reply else reply_dataipv4address reply)
          19522
          (if length (reply_syncipaddress reply) < 16
           then fst (ipAddr_of getaddrinfo cpIP useIPv6)
           else reply_syncipaddress reply)
          (reply_syncudpport reply))"
proof -
  obtain ipAddr looked_up where
    addr: "ipAddr_of getaddrinfo cpIP useIPv6 = (ipAddr, looked_up)"
    by (cases "ipAddr_of getaddrinfo cpIP useIPv6")
  show ?thesis
    using assms(2)
    by (simp add: GetLbUri_result [where stub = stub, OF assms(1) addr] addr)
qed

text \<open>
  C7. \<open>is_ipv4\<close> accepts exactly four dot-separated decimal octets (one to three digits,
  value 0 to 255) and \<open>is_ipv6\<close> exactly eight colon-separated groups of one to four
  hexadecimal digits. When \<open>cpIP\<close> passes one of them, both static functions print it
  unchanged as the host of the URI and their only event is the request: the resolver is
  not called. Otherwise the resolver is called once, with the name; of the addresses it
  prints, the last one that passes \<open>is_ipv6\<close> is taken when IPv6 was asked for and there
  is one, else the last one that passes \<open>is_ipv4\<close> when there is one (the fallback to
  IPv4), else \<open>cpIP\<close> itself stays.
\<close>

theorem control_plane_address_selection:
  "is_ipv4 cpIP = dotted_quad cpIP \<and> is_ipv6 cpIP = colon_groups cpIP \<and>
   (is_ipv4 cpIP \<or> is_ipv6 cpIP \<longrightarrow>
      ipAddr_of getaddrinfo cpIP useIPv6 = (cpIP, []) \<and>
      snd (ReserveLoadBalancer_static stub getaddrinfo cpIP port lbName' adminToken' untilSeconds'
             useIPv6) =
        [Rpc (cpTarget cpIP port)
           (ReserveLoadBalancerCall
              (ReserveLoadBalancer_request adminToken' lbName' untilSeconds'))] \<and>
      snd (GetLbUri stub2 getaddrinfo cpIP port lbId' adminToken' useIPv6) =
        [Rpc (cpTarget cpIP port)
           (GetLoadBalancerCall \<lparr>get_token = adminToken', get_lbid = lbId'\<rparr>)]) \<and>
   (\<not> (is_ipv4 cpIP \<or> is_ipv6 cpIP) \<longrightarrow>
      ipAddr_of getaddrinfo cpIP useIPv6 =
        (let found = (case getaddrinfo (c_str cpIP) of None \<Rightarrow> [] | Some result \<Rightarrow> result);
             ipV4 = last_matching is_ipv4 [] found;
             ipV6 = last_matching is_ipv6 [] found
         in if useIPv6 \<and> ipV6 \<noteq> [] then ipV6 else if ipV4 \<noteq> [] then ipV4 else cpIP,
         [Getaddrinfo (c_str cpIP)]) \<and>
      snd (ReserveLoadBalancer_static stub getaddrinfo cpIP port lbName' adminToken' untilSeconds'
             useIPv6) =
        [Rpc (cpTarget cpIP port)
           (ReserveLoadBalancerCall
              (ReserveLoadBalancer_request adminToken' lbName' untilSeconds')),
         Getaddrinfo (c_str cpIP)] \<and>
      snd (GetLbUri stub2 getaddrinfo cpIP port lbId' adminToken' useIPv6) =
        [Rpc (cpTarget cpIP port)
           (GetLoadBalancerCall \<lparr>get_token = adminToken', get_lbid = lbId'\<rparr>),
         Getaddrinfo (c_str cpIP)]) \<and>
   (ok (fst (stub (ReserveLoadBalancer_request adminToken' lbName' untilSeconds'))) \<longrightarrow>
      (\<exists>lbid dataAddr syncIP syncPort.
         fst (ReserveLoadBalancer_static stub getaddrinfo cpIP port lbName' adminToken'
                untilSeconds' useIPv6) =
           sprintf_url
             (reserve_uri
                (reply_token
                   (snd (stub (ReserveLoadBalancer_request adminToken' lbName' untilSeconds'))))
                (fst (ipAddr_of getaddrinfo cpIP useIPv6)) port lbid dataAddr 19522 syncIP
                syncPort))) \<and>
   (ok (fst (stub2 \<lparr>get_token = adminToken', get_lbid = lbId'\<rparr>)) \<longrightarrow>
      (\<exists>lbid dataAddr syncIP syncPort.
         fst (GetLbUri stub2 getaddrinfo cpIP port lbId' adminToken' useIPv6) =
           sprintf_url
             (lookup_uri (fst (ipAddr_of getaddrinfo cpIP useIPv6)) port lbid dataAddr 19522
                syncIP syncPort)))"
proof -
  have literal: "ipAddr_of getaddrinfo cpIP useIPv6 = (cpIP, [])" if "is_ipv4 cpIP \<or> is_ipv6 cpIP"
    using that by (rule ipAddr_of_literal)
  have named: "ipAddr_of getaddrinfo cpIP useIPv6 =
        (let found = (case getaddrinfo (c_str cpIP) of None \<Rightarrow> [] | Some result \<Rightarrow> result);
             ipV4 = last_matching is_ipv4 [] found;
             ipV6 = last_matching is_ipv6 [] found
         in if useIPv6 \<and> ipV6 \<noteq> [] then ipV6 else if ipV4 \<noteq> [] then ipV4 else cpIP,
         [Getaddrinfo (c_str cpIP)])" if "\<not> (is_ipv4 cpIP \<or> is_ipv6 cpIP)"
    using that by (rule ipAddr_of_name)
  have reserve: "\<exists>lbid dataAddr syncIP syncPort.
         fst (ReserveLoadBalancer_static stub getaddrinfo cpIP port lbName' adminToken'
                untilSeconds' useIPv6) =
           sprintf_url
             (reserve_uri
                (reply_token
                   (snd (stub (ReserveLoadBalancer_request adminToken' lbName' untilSeconds'))))
                (fst (ipAddr_of getaddrinfo cpIP useIPv6)) port lbid dataAddr 19522 syncIP
                syncPort)"
    if "ok (fst (stub (ReserveLoadBalancer_request adminToken' lbName' untilSeconds')))"
  proof -
    obtain status reply where
      answer: "stub (ReserveLoadBalancer_request adminToken' lbName' untilSeconds') = (status, reply)"
      by (cases "stub (ReserveLoadBalancer_request adminToken' lbName' untilSeconds')")
    with that have "ok status" by simp
    from uri_ReserveLoadBalancer_static [where stub = stub, OF answer this]
    show ?thesis unfolding answer snd_conv by blast
  qed
  have lookup: "\<exists>lbid dataAddr syncIP syncPort.
         fst (GetLbUri stub2 getaddrinfo cpIP port lbId' adminToken' useIPv6) =
           sprintf_url
             (lookup_uri (fst (ipAddr_of getaddrinfo cpIP useIPv6)) port lbid dataAddr 19522
                syncIP syncPort)"
    if "ok (fst (stub2 \<lparr>get_token = adminToken', get_lbid = lbId'\<rparr>))"
  proof -
    obtain status reply where
      answer: "stub2 \<lparr>get_token = adminToken', get_lbid = lbId'\<rparr> = (status, reply)"
      by (cases "stub2 \<lparr>get_token = adminToken', get_lbid = lbId'\<rparr>")
    with that have "ok status" by simp
    from uri_GetLbUri [where stub = stub2, OF answer this]
    show ?thesis by blast
  qed
  have events_literal:
    "snd (ReserveLoadBalancer_static stub getaddrinfo cpIP port lbName' adminToken' untilSeconds'
             useIPv6) =
        [Rpc (cpTarget cpIP port)
           (ReserveLoadBalancerCall
              (ReserveLoadBalancer_request adminToken' lbName' untilSeconds'))] \<and>
      snd (GetLbUri stub2 getaddrinfo cpIP port lbId' adminToken' useIPv6) =
        [Rpc (cpTarget cpIP port)
           (GetLoadBalancerCall \<lparr>get_token = adminToken', get_lbid = lbId'\<rparr>)]"
    if "is_ipv4 cpIP \<or> is_ipv6 cpIP"
    by (simp add: events_ReserveLoadBalancer_static events_GetLbUri literal [OF that])
  have events_named:
    "snd (ReserveLoadBalancer_static stub getaddrinfo cpIP port lbName' adminToken' untilSeconds'
             useIPv6) =
        [Rpc (cpTarget cpIP port)
           (ReserveLoadBalancerCall
              (ReserveLoadBalancer_request adminToken' lbName' untilSeconds')),
         Getaddrinfo (c_str cpIP)] \<and>
      snd (GetLbUri stub2 getaddrinfo cpIP port lbId' adminToken' useIPv6) =
        [Rpc (cpTarget cpIP port)
           (GetLoadBalancerCall \<lparr>get_token = adminToken', get_lbid = lbId'\<rparr>),
         Getaddrinfo (c_str cpIP)]"
    if "\<not> (is_ipv4 cpIP \<or> is_ipv6 cpIP)"
    by (simp add: events_ReserveLoadBalancer_static events_GetLbUri named [OF that])
  show ?thesis
    using is_ipv4_iff [of cpIP] is_ipv6_iff [of cpIP] literal named reserve lookup
      events_literal events_named
    by blast
qed

lemma is_ipv4_sample: "is_ipv4 ''192.168.0.3''"
  by code_simp

lemma is_ipv4_sample_sync: "is_ipv4 ''10.0.0.1''"
  by code_simp

lemma not_literal_localhost: "\<not> (is_ipv4 ''localhost'' \<or> is_ipv6 ''localhost'')"
  by code_simp

lemma sample_lookup:
  "last_matching is_ipv4 [] [''::1'', ''127.0.0.1''] = ''127.0.0.1''"
  "last_matching is_ipv6 [] [''::1'', ''127.0.0.1''] = []"
  by code_simp+

theorem control_plane_address_selection_witness:
  "(is_ipv4 ''192.168.0.3'' \<or> is_ipv6 ''192.168.0.3'') \<and>
   dotted_quad ''192.168.0.3'' \<and>
   ipAddr_of sample_getaddrinfo ''192.168.0.3'' True = (''192.168.0.3'', []) \<and>
   \<not> (is_ipv4 ''localhost'' \<or> is_ipv6 ''localhost'') \<and>
   ipAddr_of sample_getaddrinfo ''localhost'' True = (''127.0.0.1'', [Getaddrinfo ''localhost'']) \<and>
   snd (GetLbUri (\<lambda>request. (status_ok, sample_reply)) sample_getaddrinfo ''localhost'' 18347
          ''lb7'' ''admin'' True) =
     [Rpc ''localhost:18347'' (GetLoadBalancerCall \<lparr>get_token = ''admin'', get_lbid = ''lb7''\<rparr>),
      Getaddrinfo ''localhost'']"
proof -
  have name: "c_str ''localhost'' = ''localhost''"
    by (simp add: c_str_def)
  have target: "cpTarget ''localhost'' 18347 = ''localhost:18347''"
    by (simp add: cpTarget_def to_string.simps)
  show ?thesis
    using control_plane_address_selection
            [where cpIP = "''192.168.0.3''" and getaddrinfo = sample_getaddrinfo
               and ?useIPv6.0 = True]
          control_plane_address_selection
            [where cpIP = "''localhost''" and getaddrinfo = sample_getaddrinfo
               and ?useIPv6.0 = True and ?stub2.0 = "\<lambda>request. (status_ok, sample_reply)"
               and port = 18347 and lbId' = "''lb7''" and adminToken' = "''admin''"]
          is_ipv4_sample not_literal_localhost
    by (simp add: name target sample_getaddrinfo_def sample_lookup Let_def)
qed

text \<open>
  C10. In all three functions the reply's sync address is replaced by the control-plane
  address exactly when it has fewer than 16 bytes (the empty string included): the member
  function then stores \<open>cpAddr\<close>, and the two static functions print, in the sync
  position of the URI, the same address they print as host. A sync address of 16 bytes or
  more is kept. Every string that passes \<open>is_ipv4\<close> has fewer than 16 bytes, so a
  dotted-decimal IPv4 sync address from the server is always replaced.
\<close>

theorem sync_address_fallback:
  "(stub (ReserveLoadBalancer_request (adminToken r) (lbName r) (untilSeconds r)) = (status, reply)
      \<and> ok status \<longrightarrow>
    syncIpAddress (fst (snd (ReserveLoadBalancer stub r))) =
      (if reply_syncipaddress reply = [] \<or> length (reply_syncipaddress reply) < 16 then cpAddr r
       else reply_syncipaddress reply)) \<and>
   (stub1 (ReserveLoadBalancer_request adminToken' lbName' untilSeconds') = (status1, reply1)
      \<and> ok status1 \<longrightarrow>
    fst (ReserveLoadBalancer_static stub1 getaddrinfo cpIP port lbName' adminToken' untilSeconds'
           useIPv6) =
      sprintf_url
        (reserve_uri (reply_token reply1) (fst (ipAddr_of getaddrinfo cpIP useIPv6)) port
           (reply_lbid reply1)
           (if useIPv6 then reply_dataipv6address reply1 else reply_dataipv4address reply1)
           19522
           (if reply_syncipaddress reply1 = [] \<or> length (reply_syncipaddress reply1) < 16
            then fst (ipAddr_of getaddrinfo cpIP useIPv6)
            else reply_syncipaddress reply1)
           (reply_syncudpport reply1))) \<and>
   (stub2 \<lparr>get_token = adminToken', get_lbid = lbId'\<rparr> = (status2, reply2) \<and> ok status2 \<longrightarrow>
    fst (GetLbUri stub2 getaddrinfo cpIP port lbId' adminToken' useIPv6) =
      sprintf_url
        (lookup_uri (fst (ipAddr_of getaddrinfo cpIP useIPv6)) port (reply_lbid reply2)
           (if useIPv6 then reply_dataipv6address reply2 else reply_dataipv4address reply2)
           19522
           (if reply_syncipaddress reply2 = [] \<or> length (reply_syncipaddress reply2) < 16
            then fst (ipAddr_of getaddrinfo cpIP useIPv6)
            else reply_syncipaddress reply2)
           (reply_syncudpport reply2))) \<and>
   (is_ipv4 s \<longrightarrow> length s < 16)"
proof -
  have empty_short: "(x = [] \<or> length x < 16) = (length x < 16)" for x :: string
    by auto
  have member:
    "syncIpAddress (fst (snd (ReserveLoadBalancer stub r))) =
       (if length (reply_syncipaddress reply) < 16 then cpAddr r else reply_syncipaddress reply)"
    if "stub (ReserveLoadBalancer_request (adminToken r) (lbName r) (untilSeconds r))
          = (status, reply)" and "ok status"
    by (simp add: ReserveLoadBalancer_succeeded [where stub = stub, OF that])
  show ?thesis
    unfolding empty_short
    using member uri_ReserveLoadBalancer_static [where stub = stub1]
      uri_GetLbUri [where stub = stub2] is_ipv4_shape(1) [of s]
    by blast
qed

theorem sync_address_fallback_witness:
  "ok status_ok \<and> is_ipv4 (reply_syncipaddress sample_reply) \<and>
   reply_syncipaddress sample_reply = ''10.0.0.1'' \<and>
   syncIpAddress
     (fst (snd (ReserveLoadBalancer (\<lambda>request. (status_ok, sample_reply)) sample_reservation)))
     = ''192.168.0.3'' \<and>
   fst (GetLbUri (\<lambda>request. (status_ok, sample_reply)) sample_getaddrinfo ''192.168.0.3'' 18347
          ''lb7'' ''admin'' False)
     = Inr ''ejfat://192.168.0.3:18347/lb/lb7?data=10.0.0.5:19522&sync=192.168.0.3:18000''"
proof -
  have addr: "ipAddr_of sample_getaddrinfo ''192.168.0.3'' False = (''192.168.0.3'', [])"
    using is_ipv4_sample by (simp add: ipAddr_of_literal)
  have cp: "cpAddr sample_reservation = ''192.168.0.3''"
    by (simp add: sample_reservation_def LbReservation_new_def)
  have uri: "sprintf_url (lookup_uri ''192.168.0.3'' 18347 ''lb7'' ''10.0.0.5'' 19522
                 ''192.168.0.3'' 18000) =
      Inr ''ejfat://192.168.0.3:18347/lb/lb7?data=10.0.0.5:19522&sync=192.168.0.3:18000''"
    by (simp add: sprintf_url_def lookup_uri_def c_str_def printf_d_def to_string.simps)
  show ?thesis
    using sync_address_fallback
            [where stub = "\<lambda>request. (status_ok, sample_reply)" and r = sample_reservation
               and status = status_ok and reply = sample_reply
               and ?stub2.0 = "\<lambda>request. (status_ok, sample_reply)" and ?status2.0 = status_ok
               and ?reply2.0 = sample_reply and getaddrinfo = sample_getaddrinfo
               and cpIP = "''192.168.0.3''" and port = 18347 and lbId' = "''lb7''"
               and adminToken' = "''admin''" and ?useIPv6.0 = False and s = "''10.0.0.1''"]
          is_ipv4_sample_sync
    by (simp add: addr cp sample_reply_def uri)
qed

subsection \<open>The end-to-end reserve scenario\<close>

lemma printf_d_samples: "printf_d 19522 = ''19522''" "printf_d 18000 = ''18000''"
  by (simp_all add: printf_d_def to_string.simps)

lemma c_str_samples:
  "c_str ''tok123'' = ''tok123''" "c_str ''lb7'' = ''lb7''" "c_str ''10.0.0.5'' = ''10.0.0.5''"
  by (simp_all add: c_str_def)

lemma length_literal: "is_ipv4 s \<or> is_ipv6 s \<Longrightarrow> length s < 40"
  using is_ipv4_shape(1) [of s] is_ipv6_shape(1) [of s] by auto

lemma reserve_scenario:
  assumes "is_ipv4 cpIP \<or> is_ipv6 cpIP"
    and "stub (ReserveLoadBalancer_request adminToken' ''test'' untilSeconds') = (status, reply)"
    and "ok status"
    and "reply_token reply = ''tok123''"
    and "reply_lbid reply = ''lb7''"
    and "reply_dataipv4address reply = ''10.0.0.5''"
    and "reply_syncipaddress reply = ''10.0.0.1''"
    and "reply_syncudpport reply = 18000"
  shows "ReserveLoadBalancer_static stub getaddrinfo cpIP port ''test'' adminToken' untilSeconds'
           False =
     (Inr (''ejfat://tok123@'' @ cpIP @ '':'' @ to_string (unat port) @
           ''/lb/lb7?data=10.0.0.5:19522&sync='' @ cpIP @ '':18000''),
      [Rpc (cpTarget cpIP port)
         (ReserveLoadBalancerCall
            (ReserveLoadBalancer_request adminToken' ''test'' untilSeconds'))])"
proof -
  have addr: "ipAddr_of getaddrinfo cpIP False = (cpIP, [])"
    using assms(1) by (rule ipAddr_of_literal)
  have cp: "c_str cpIP = cpIP"
    using assms(1) by (rule c_str_literal)
  have uri: "reserve_uri ''tok123'' cpIP port ''lb7'' ''10.0.0.5'' 19522 cpIP 18000 =
      ''ejfat://tok123@'' @ cpIP @ '':'' @ to_string (unat port) @
      ''/lb/lb7?data=10.0.0.5:19522&sync='' @ cpIP @ '':18000''"
    by (simp add: reserve_uri_def cp c_str_samples printf_d_samples)
  have fits: "length (''ejfat://tok123@'' @ cpIP @ '':'' @ to_string (unat port) @
      ''/lb/lb7?data=10.0.0.5:19522&sync='' @ cpIP @ '':18000'') < 256"
    using length_literal [OF assms(1)] length_to_string_port [of port] by simp
  have "ReserveLoadBalancer_static stub getaddrinfo cpIP port ''test'' adminToken' untilSeconds'
           False =
     (sprintf_url (reserve_uri ''tok123'' cpIP port ''lb7'' ''10.0.0.5'' 19522 cpIP 18000),
      [Rpc (cpTarget cpIP port)
         (ReserveLoadBalancerCall
            (ReserveLoadBalancer_request adminToken' ''test'' untilSeconds'))])"
    using assms(3)
    by (simp add: ReserveLoadBalancer_static_result [where stub = stub, OF assms(2) addr]
          assms(4-8))
  also have "sprintf_url (reserve_uri ''tok123'' cpIP port ''lb7'' ''10.0.0.5'' 19522 cpIP 18000) =
      Inr (''ejfat://tok123@'' @ cpIP @ '':'' @ to_string (unat port) @
           ''/lb/lb7?data=10.0.0.5:19522&sync='' @ cpIP @ '':18000'')"
    unfolding uri sprintf_url_def using fits by (simp only: if_True)
  finally show ?thesis .
qed

text \<open>
  C1 as stated does not hold. With the control plane at \<open>192.168.0.3:18347\<close> and the
  reply of the scenario, the sync address of the returned URI is the control-plane
  address, not the server's \<open>10.0.0.1\<close>: that string has 8 bytes, fewer than 16.
\<close>

theorem reserve_scenario_counterexample:
  "fst (ReserveLoadBalancer_static (\<lambda>request. (status_ok, sample_reply)) (\<lambda>host. None)
          ''192.168.0.3'' 18347 ''test'' ''admin'' 1700003600 False)
     = Inr ''ejfat://tok123@192.168.0.3:18347/lb/lb7?data=10.0.0.5:19522&sync=192.168.0.3:18000'' \<and>
   fst (ReserveLoadBalancer_static (\<lambda>request. (status_ok, sample_reply)) (\<lambda>host. None)
          ''192.168.0.3'' 18347 ''test'' ''admin'' 1700003600 False)
     \<noteq> Inr ''ejfat://tok123@192.168.0.3:18347/lb/lb7?data=10.0.0.5:19522&sync=10.0.0.1:18000''"
proof -
  have lit: "is_ipv4 ''192.168.0.3'' \<or> is_ipv6 ''192.168.0.3''"
    using is_ipv4_sample by simp
  have "ReserveLoadBalancer_static (\<lambda>request. (status_ok, sample_reply)) (\<lambda>host. None)
          ''192.168.0.3'' 18347 ''test'' ''admin'' 1700003600 False =
     (Inr (''ejfat://tok123@'' @ ''192.168.0.3'' @ '':'' @ to_string (unat (18347 :: 16 word)) @
           ''/lb/lb7?data=10.0.0.5:19522&sync='' @ ''192.168.0.3'' @ '':18000''),
      [Rpc (cpTarget ''192.168.0.3'' 18347)
         (ReserveLoadBalancerCall (ReserveLoadBalancer_request ''admin'' ''test'' 1700003600))])"
    by (rule reserve_scenario [OF lit, where status = status_ok and reply = sample_reply])
       (simp_all add: sample_reply_def)
  moreover have "to_string 18347 = ''18347''"
    by (simp add: to_string.simps)
  ultimately show ?thesis
    by simp
qed

text \<open>
  C1, amended. For the static \<open>ReserveLoadBalancer\<close> called with \<open>lbName = "test"\<close>
  and \<open>ipv6 = false\<close>, with a control-plane address \<open>cpAddr\<close> that is an IPv4 or IPv6
  literal, against a server replying OK with \<open>lbId = "lb7"\<close>,
  \<open>dataipv4address = "10.0.0.5"\<close>, \<open>syncipaddress = "10.0.0.1"\<close>,
  \<open>syncudpport = 18000\<close>, \<open>token = "tok123"\<close>, the returned string is exactly
  \<^verbatim>\<open>ejfat://tok123@<cpAddr>:<cpPort>/lb/lb7?data=10.0.0.5:19522&sync=<cpAddr>:18000\<close>:
  the data port is the constant 19522, and the sync address in the URI is the
  control-plane address, because the server's sync address is shorter than 16 bytes. The
  only event of the call is the request.
\<close>

theorem reserve_scenario_uri:
  assumes "is_ipv4 cpIP \<or> is_ipv6 cpIP"
    and "stub (ReserveLoadBalancer_request adminToken' ''test'' untilSeconds') = (status, reply)"
    and "ok status"
    and "reply_token reply = ''tok123''"
    and "reply_lbid reply = ''lb7''"
    and "reply_dataipv4address reply = ''10.0.0.5''"
    and "reply_syncipaddress reply = ''10.0.0.1''"
    and "reply_syncudpport reply = 18000"
  shows "ReserveLoadBalancer_static stub getaddrinfo cpIP port ''test'' adminToken' untilSeconds'
           False =
     (Inr (''ejfat://tok123@'' @ cpIP @ '':'' @ to_string (unat port) @
           ''/lb/lb7?data=10.0.0.5:19522&sync='' @ cpIP @ '':18000''),
      [Rpc (cpTarget cpIP port)
         (ReserveLoadBalancerCall
            (ReserveLoadBalancer_request adminToken' ''test'' untilSeconds'))])"
  using assms by (rule reserve_scenario)

theorem reserve_scenario_uri_witness:
  "(is_ipv4 ''10.1.2.3'' \<or> is_ipv6 ''10.1.2.3'') \<and> ok status_ok \<and>
   reply_syncipaddress sample_reply = ''10.0.0.1'' \<and>
   ReserveLoadBalancer_static (\<lambda>request. (status_ok, sample_reply)) sample_getaddrinfo
     ''10.1.2.3'' 50051 ''test'' ''admin'' 1700003600 False =
     (Inr ''ejfat://tok123@10.1.2.3:50051/lb/lb7?data=10.0.0.5:19522&sync=10.1.2.3:18000'',
      [Rpc ''10.1.2.3:50051''
         (ReserveLoadBalancerCall
            \<lparr>reserve_token = ''admin'', reserve_name = ''test'',
             reserve_until = \<lparr>seconds = 1700003600, nanos = 0\<rparr>\<rparr>)])"
proof -
  have lit: "is_ipv4 ''10.1.2.3'' \<or> is_ipv6 ''10.1.2.3''"
    by code_simp
  have port: "to_string 50051 = ''50051''"
    by (simp add: to_string.simps)
  show ?thesis
    using reserve_scenario_uri
            [OF lit, where stub = "\<lambda>request. (status_ok, sample_reply)" and status = status_ok
               and reply = sample_reply and adminToken' = "''admin''"
               and untilSeconds' = 1700003600 and getaddrinfo = sample_getaddrinfo
               and port = 50051]
          lit
    by (simp add: sample_reply_def port cpTarget_def ReserveLoadBalancer_request_def)
qed

end
